theory Spec2Isabelle
  imports Complex_Main "HOL-Library.Sublist" "HOL-Library.Char_ord" "HOL-Library.List_Lexorder"
begin

section \<open>Python values\<close>

text \<open>
  A Python \<open>str\<close> is represented by the bytes of its UTF-8 encoding, as an Isabelle
  \<open>string\<close>. Under this representation \<open>s.encode('utf-8')\<close> is the identity,
  \<open>bs.decode()\<close> succeeds exactly on well-formed UTF-8 and returns the same bytes, and
  the operations the program uses on text (\<open>startswith\<close>, \<open>in\<close>, \<open>replace\<close>,
  \<open>split\<close> with ASCII or well-formed patterns) agree on bytes and on code points,
  UTF-8 being self-synchronising. A \<open>str\<close> with a lone surrogate has no representation.
\<close>

subsection \<open>JSON values, responses, exceptions\<close>

text \<open>What \<open>response.json()\<close> returns and what the endpoints return: \<open>None\<close>,
  booleans, numbers, text, lists and dictionaries. A dictionary is an association list
  read with \<open>map_of\<close>. \<open>JFloat\<close> carries a finite float as a rational.\<close>

datatype json =
    JNull
  | JBool bool
  | JInt int
  | JFloat rat
  | JStr string
  | JArr "json list"
  | JObj "(string \<times> json) list"

text \<open>An \<open>httpx.Response\<close>: \<open>resp_json\<close> is what \<open>.json()\<close> returns, \<open>None\<close> when the
  body does not parse.\<close>

record response =
  status_code :: nat
  resp_text :: string
  resp_json :: "json option"

record request =
  req_method :: string
  req_url :: string
  req_headers :: "(string \<times> string) list"
  req_json :: "json option"

text \<open>The exceptions the program can meet, all subclasses of \<open>Exception\<close>.
  \<open>RequestError\<close> stands for whatever \<open>client.get\<close> or \<open>client.post\<close> raises.\<close>

datatype exn =
    ValueError
  | BinasciiError
  | UnicodeDecodeError
  | KeyError string
  | TypeError
  | AttributeError
  | JSONDecodeError
  | RequestError string
  | HTTPStatusError response

datatype HTTPException = HTTPException nat string

definition andthen :: "exn + 'a \<Rightarrow> ('a \<Rightarrow> exn + 'b) \<Rightarrow> exn + 'b" where
  "andthen m f = (case m of Inl e \<Rightarrow> Inl e | Inr x \<Rightarrow> f x)"

text \<open>A loop or comprehension whose body may raise: the first exception ends it.\<close>

fun traverse :: "('a \<Rightarrow> exn + 'b) \<Rightarrow> 'a list \<Rightarrow> exn + 'b list" where
  "traverse f [] = Inr []"
| "traverse f (x # xs) =
     andthen (f x) (\<lambda>y. andthen (traverse f xs) (\<lambda>ys. Inr (y # ys)))"

subsection \<open>Text\<close>

definition newline :: char where
  "newline = CHR 0x0A"

definition quote :: char where
  "quote = CHR 0x27"

text \<open>\<open>sub in s\<close> on text.\<close>

fun str_contains :: "string \<Rightarrow> string \<Rightarrow> bool" where
  "str_contains sub [] = (sub = [])"
| "str_contains sub (c # cs) = (prefix sub (c # cs) \<or> str_contains sub cs)"

text \<open>\<open>s.replace(old, new)\<close>: the occurrences of \<open>old\<close> found from the left, without
  overlap. Every pattern of the program is a non-empty literal; for an empty pattern
  (where Python inserts \<open>new\<close> around every character) the text is returned as it is.\<close>

function replace :: "string \<Rightarrow> string \<Rightarrow> string \<Rightarrow> string" where
  "replace old new [] = []"
| "replace old new (c # cs) =
     (if old \<noteq> [] \<and> prefix old (c # cs)
      then new @ replace old new (drop (length old) (c # cs))
      else c # replace old new cs)"
  by pat_completeness auto
termination
  by (relation "measure (\<lambda>(old, new, s). length s)") (auto simp: neq_Nil_conv)

text \<open>\<open>s.split(sep)\<close> for a non-empty \<open>sep\<close> (an empty one is a \<open>ValueError\<close> in Python
  and never occurs here): \<open>cur\<close> is the piece being read.\<close>

function split_acc :: "string \<Rightarrow> string \<Rightarrow> string \<Rightarrow> string list" where
  "split_acc sep cur [] = [cur]"
| "split_acc sep cur (c # cs) =
     (if sep \<noteq> [] \<and> prefix sep (c # cs)
      then cur # split_acc sep [] (drop (length sep) (c # cs))
      else split_acc sep (cur @ [c]) cs)"
  by pat_completeness auto
termination
  by (relation "measure (\<lambda>(sep, cur, s). length s)") (auto simp: neq_Nil_conv)

definition str_split :: "string \<Rightarrow> string \<Rightarrow> string list" where
  "str_split s sep = split_acc sep [] s"

fun join :: "string \<Rightarrow> string list \<Rightarrow> string" where
  "join sep [] = []"
| "join sep [x] = x"
| "join sep (x # y # r) = x @ sep @ join sep (y # r)"

text \<open>The characters \<open>str.strip()\<close> removes, in UTF-8: the ASCII white space and the
  Unicode spaces U+0085, U+00A0, U+1680, U+2000 to U+200A, U+2028, U+2029, U+202F,
  U+205F and U+3000.\<close>

definition whitespace :: "string list" where
  "whitespace =
     [[CHR 0x09], [CHR 0x0A], [CHR 0x0B], [CHR 0x0C], [CHR 0x0D], [CHR 0x1C], [CHR 0x1D],
      [CHR 0x1E], [CHR 0x1F], [CHR 0x20], [CHR 0xC2, CHR 0x85], [CHR 0xC2, CHR 0xA0],
      [CHR 0xE1, CHR 0x9A, CHR 0x80], [CHR 0xE2, CHR 0x80, CHR 0x80],
      [CHR 0xE2, CHR 0x80, CHR 0x81], [CHR 0xE2, CHR 0x80, CHR 0x82],
      [CHR 0xE2, CHR 0x80, CHR 0x83], [CHR 0xE2, CHR 0x80, CHR 0x84],
      [CHR 0xE2, CHR 0x80, CHR 0x85], [CHR 0xE2, CHR 0x80, CHR 0x86],
      [CHR 0xE2, CHR 0x80, CHR 0x87], [CHR 0xE2, CHR 0x80, CHR 0x88],
      [CHR 0xE2, CHR 0x80, CHR 0x89], [CHR 0xE2, CHR 0x80, CHR 0x8A],
      [CHR 0xE2, CHR 0x80, CHR 0xA8], [CHR 0xE2, CHR 0x80, CHR 0xA9],
      [CHR 0xE2, CHR 0x80, CHR 0xAF], [CHR 0xE2, CHR 0x81, CHR 0x9F],
      [CHR 0xE3, CHR 0x80, CHR 0x80]]"

function lstrip :: "string \<Rightarrow> string" where
  "lstrip s =
     (case find (\<lambda>ws. ws \<noteq> [] \<and> prefix ws s) whitespace of
        None \<Rightarrow> s
      | Some ws \<Rightarrow> lstrip (drop (length ws) s))"
  by pat_completeness auto
termination
proof (relation "measure length")
  fix s ws
  assume "find (\<lambda>ws. ws \<noteq> [] \<and> prefix ws s) whitespace = Some ws"
  then have "ws \<noteq> []" and "prefix ws s"
    by (auto simp: find_Some_iff)
  then show "(drop (length ws) s, s) \<in> measure length"
    by (cases s) (auto simp: neq_Nil_conv)
qed simp

function rstrip :: "string \<Rightarrow> string" where
  "rstrip s =
     (case find (\<lambda>ws. ws \<noteq> [] \<and> suffix ws s) whitespace of
        None \<Rightarrow> s
      | Some ws \<Rightarrow> rstrip (take (length s - length ws) s))"
  by pat_completeness auto
termination
proof (relation "measure length")
  fix s ws
  assume "find (\<lambda>ws. ws \<noteq> [] \<and> suffix ws s) whitespace = Some ws"
  then have "ws \<noteq> []" and "suffix ws s"
    by (auto simp: find_Some_iff)
  then show "(take (length s - length ws) s, s) \<in> measure length"
    by (cases s) (auto simp: neq_Nil_conv suffix_def)
qed simp

definition strip :: "string \<Rightarrow> string" where
  "strip s = rstrip (lstrip s)"

subsection \<open>Operations on values of unknown type\<close>

text \<open>\<open>d[k]\<close>: only a dictionary can be read with a text key.\<close>

definition py_item :: "json \<Rightarrow> string \<Rightarrow> exn + json" where
  "py_item d k =
     (case d of
        JObj kvs \<Rightarrow> (case map_of kvs k of None \<Rightarrow> Inl (KeyError k) | Some v \<Rightarrow> Inr v)
      | _ \<Rightarrow> Inl TypeError)"

text \<open>\<open>d.get(k, default)\<close>: only a dictionary has \<open>get\<close>.\<close>

definition py_get :: "json \<Rightarrow> string \<Rightarrow> json \<Rightarrow> exn + json" where
  "py_get d k dflt =
     (case d of
        JObj kvs \<Rightarrow> (case map_of kvs k of None \<Rightarrow> Inr dflt | Some v \<Rightarrow> Inr v)
      | _ \<Rightarrow> Inl AttributeError)"

text \<open>\<open>for x in v\<close>: a list gives its elements, a dictionary its keys, text its
  characters (every loop of the program subscripts or calls \<open>get\<close> on its element
  first, which raises on text, so that only the emptiness of text can be observed).\<close>

definition py_iter :: "json \<Rightarrow> exn + json list" where
  "py_iter v =
     (case v of
        JArr xs \<Rightarrow> Inr xs
      | JObj kvs \<Rightarrow> Inr (map JStr (remdups (map fst kvs)))
      | JStr s \<Rightarrow> Inr (map (\<lambda>c. JStr [c]) s)
      | _ \<Rightarrow> Inl TypeError)"

definition py_truthy :: "json \<Rightarrow> bool" where
  "py_truthy v =
     (case v of
        JNull \<Rightarrow> False
      | JBool b \<Rightarrow> b
      | JInt n \<Rightarrow> n \<noteq> 0
      | JFloat r \<Rightarrow> r \<noteq> 0
      | JStr s \<Rightarrow> s \<noteq> []
      | JArr xs \<Rightarrow> xs \<noteq> []
      | JObj kvs \<Rightarrow> kvs \<noteq> [])"

text \<open>\<open>sub in v\<close> for a text \<open>sub\<close>: containment in text, membership in a list, key of
  a dictionary.\<close>

definition py_in :: "string \<Rightarrow> json \<Rightarrow> exn + bool" where
  "py_in sub v =
     (case v of
        JStr s \<Rightarrow> Inr (str_contains sub s)
      | JArr xs \<Rightarrow> Inr (JStr sub \<in> set xs)
      | JObj kvs \<Rightarrow> Inr (sub \<in> set (map fst kvs))
      | _ \<Rightarrow> Inl TypeError)"

text \<open>\<open>v.replace(old, new)\<close> and \<open>v.split(sep)\<close>: methods of text only.\<close>

definition py_replace :: "json \<Rightarrow> string \<Rightarrow> string \<Rightarrow> exn + json" where
  "py_replace v old new =
     (case v of JStr s \<Rightarrow> Inr (JStr (replace old new s)) | _ \<Rightarrow> Inl AttributeError)"

definition py_split :: "json \<Rightarrow> string \<Rightarrow> exn + string list" where
  "py_split v sep =
     (case v of JStr s \<Rightarrow> Inr (str_split s sep) | _ \<Rightarrow> Inl AttributeError)"

subsection \<open>UTF-8 decoding of \<open>bytes\<close>\<close>

definition cont :: "char \<Rightarrow> bool" where
  "cont c = (128 \<le> (of_char c :: nat) \<and> (of_char c :: nat) \<le> 191)"

definition between :: "nat \<Rightarrow> char \<Rightarrow> nat \<Rightarrow> bool" where
  "between lo c hi = (lo \<le> of_char c \<and> (of_char c :: nat) \<le> hi)"

text \<open>The well-formed byte sequences of UTF-8 (no overlong forms, no surrogates, nothing
  above U+10FFFF), which is what CPython's strict decoder accepts.\<close>

fun utf8_valid :: "string \<Rightarrow> bool" where
  "utf8_valid [] = True"
| "utf8_valid (a # rest) =
     (if between 0 a 127 then utf8_valid rest
      else if between 194 a 223 then
        (case rest of b # r \<Rightarrow> cont b \<and> utf8_valid r | _ \<Rightarrow> False)
      else if between 224 a 239 then
        (case rest of b # c # r \<Rightarrow>
           (if of_char a = (224::nat) then between 160 b 191
            else if of_char a = (237::nat) then between 128 b 159
            else cont b) \<and> cont c \<and> utf8_valid r
         | _ \<Rightarrow> False)
      else if between 240 a 244 then
        (case rest of b # c # d # r \<Rightarrow>
           (if of_char a = (240::nat) then between 144 b 191
            else if of_char a = (244::nat) then between 128 b 143
            else cont b) \<and> cont c \<and> cont d \<and> utf8_valid r
         | _ \<Rightarrow> False)
      else False)"

text \<open>\<open>bytes.decode()\<close>: the text, or \<open>UnicodeDecodeError\<close>.\<close>

definition bytes_decode :: "string \<Rightarrow> exn + string" where
  "bytes_decode bs = (if utf8_valid bs then Inr bs else Inl UnicodeDecodeError)"

subsection \<open>Base64 (\<open>base64.b64encode\<close>, \<open>base64.b64decode\<close>)\<close>

definition b2a :: "nat \<Rightarrow> char" where
  "b2a n =
     (if n < 26 then char_of (65 + n)
      else if n < 52 then char_of (71 + n)
      else if n < 62 then char_of (n - 4)
      else if n = 62 then CHR ''+''
      else CHR ''/'')"

definition table_a2b :: "char \<Rightarrow> nat option" where
  "table_a2b c =
     (let k = (of_char c :: nat) in
      if 65 \<le> k \<and> k \<le> 90 then Some (k - 65)
      else if 97 \<le> k \<and> k \<le> 122 then Some (k - 71)
      else if 48 \<le> k \<and> k \<le> 57 then Some (k + 4)
      else if k = 43 then Some 62
      else if k = 47 then Some 63
      else None)"

text \<open>\<open>b64encode\<close>: three bytes become four characters of the alphabet; a last group
  of one or two bytes is padded with \<open>=\<close>.\<close>

fun b64encode :: "string \<Rightarrow> string" where
  "b64encode [] = []"
| "b64encode [a] =
     (let x = (of_char a :: nat) in
      [b2a (x div 4), b2a ((x mod 4) * 16), CHR ''='', CHR ''=''])"
| "b64encode [a, b] =
     (let x = (of_char a :: nat); y = (of_char b :: nat) in
      [b2a (x div 4), b2a ((x mod 4) * 16 + y div 16), b2a ((y mod 16) * 4), CHR ''=''])"
| "b64encode (a # b # c # rest) =
     (let x = (of_char a :: nat); y = (of_char b :: nat); z = (of_char c :: nat) in
      [b2a (x div 4), b2a ((x mod 4) * 16 + y div 16),
       b2a ((y mod 16) * 4 + z div 64), b2a (z mod 64)] @ b64encode rest)"

text \<open>
  \<open>binascii.a2b_base64\<close> with \<open>strict_mode\<close> off (CPython 3.11 and later), which is what
  \<open>b64decode\<close> calls: characters outside the alphabet are skipped, a pad that
  completes a quad ends the input, and input that stops inside a quad is an error.
  The state is the position in the quad, the bits left over from the previous
  character and the number of pads seen in a row; \<open>out\<close> is the output so far.
\<close>

fun a2b_loop :: "nat \<Rightarrow> nat \<Rightarrow> nat \<Rightarrow> string \<Rightarrow> string \<Rightarrow> exn + string" where
  "a2b_loop quad_pos leftchar pads out [] =
     (if quad_pos \<noteq> 0 then Inl BinasciiError else Inr out)"
| "a2b_loop quad_pos leftchar pads out (this_ch # rest) =
     (if this_ch = CHR ''='' then
        (if quad_pos \<ge> 2 then
           (if quad_pos + (pads + 1) \<ge> 4 then Inr out
            else a2b_loop quad_pos leftchar (pads + 1) out rest)
         else a2b_loop quad_pos leftchar pads out rest)
      else
        (case table_a2b this_ch of
           None \<Rightarrow> a2b_loop quad_pos leftchar pads out rest
         | Some v \<Rightarrow>
             (if quad_pos = 0 then a2b_loop 1 v 0 out rest
              else if quad_pos = 1 then
                a2b_loop 2 (v mod 16) 0 (out @ [char_of (leftchar * 4 + v div 16)]) rest
              else if quad_pos = 2 then
                a2b_loop 3 (v mod 4) 0 (out @ [char_of (leftchar * 16 + v div 4)]) rest
              else
                a2b_loop 0 0 0 (out @ [char_of (leftchar * 64 + v)]) rest)))"

text \<open>\<open>b64decode\<close> of a \<open>str\<close>: a character outside ASCII is a \<open>ValueError\<close>.\<close>

definition b64decode :: "string \<Rightarrow> exn + string" where
  "b64decode s =
     (if \<exists>c \<in> set s. (of_char c :: nat) \<ge> 128 then Inl ValueError
      else a2b_loop 0 0 0 [] s)"

section \<open>Configuration\<close>

text \<open>The module-level defaults read from \<open>config.yaml\<close> at start-up.\<close>

record static_config =
  AZURE_DEVOPS_ORG :: string
  AZURE_DEVOPS_PROJECT :: string
  AZURE_ACCESS_TOKEN :: string
  BASE_URL :: string

text \<open>\<open>x or d\<close> for an optional string: \<open>None\<close> and \<open>""\<close> are both falsy.\<close>

definition py_or :: "string option \<Rightarrow> string \<Rightarrow> string" where
  "py_or x d = (case x of None \<Rightarrow> d | Some s \<Rightarrow> if s = [] then d else s)"

definition basic_value :: "string \<Rightarrow> string" where
  "basic_value token_to_use = ''Basic '' @ b64encode (CHR '':'' # token_to_use)"

definition get_auth_header :: "static_config \<Rightarrow> string option \<Rightarrow> (string \<times> string) list" where
  "get_auth_header cfg access_token =
     (let token_to_use = py_or access_token (AZURE_ACCESS_TOKEN cfg)
      in [(''Authorization'', basic_value token_to_use)])"

text \<open>The dictionary \<open>get_azure_config_from_headers\<close> returns.\<close>

record azure_config =
  organization :: string
  project :: string
  base_url :: string
  access_token :: string

text \<open>The \<open>try\<close> block of \<open>get_azure_config_from_headers\<close>: the token, \<open>None\<close> when the
  payload does not start with a colon, or the exception raised.\<close>

definition decode_basic :: "string \<Rightarrow> exn + string option" where
  "decode_basic authorization =
     (case b64decode (drop 6 authorization) of
        Inl e \<Rightarrow> Inl e
      | Inr bs \<Rightarrow>
          (case bytes_decode bs of
             Inl e \<Rightarrow> Inl e
           | Inr decoded \<Rightarrow>
               if prefix '':'' decoded then Inr (Some (drop 1 decoded)) else Inr None))"

definition get_azure_config_from_headers ::
  "static_config \<Rightarrow> string option \<Rightarrow> string option \<Rightarrow> string option \<Rightarrow> string option
     \<Rightarrow> azure_config" where
  "get_azure_config_from_headers cfg x_azure_organization x_azure_project x_azure_baseurl
       authorization =
     (let access_token =
        (case authorization of
           None \<Rightarrow> None
         | Some a \<Rightarrow>
             if a \<noteq> [] \<and> prefix ''Basic '' a then
               (case decode_basic a of Inl e \<Rightarrow> None | Inr t \<Rightarrow> t)
             else None)
      in \<lparr> organization = py_or x_azure_organization (AZURE_DEVOPS_ORG cfg),
           project = py_or x_azure_project (AZURE_DEVOPS_PROJECT cfg),
           base_url = py_or x_azure_baseurl (BASE_URL cfg),
           access_token = py_or access_token (AZURE_ACCESS_TOKEN cfg) \<rparr>)"

section \<open>The upstream service\<close>

text \<open>
  The service behind \<open>httpx.AsyncClient\<close> is a parameter: \<open>send\<close> answers a request
  in a state \<open>'w\<close> of the outside world with a response, or with the message of the
  exception the client raises, and gives the next state. \<open>str_exn\<close> is Python's
  \<open>str(e)\<close> on an exception and \<open>str_json\<close> is \<open>str(v)\<close> on a value read from JSON.
\<close>

record 'w runtime =
  send :: "'w \<Rightarrow> request \<Rightarrow> (string + response) \<times> 'w"
  str_exn :: "exn \<Rightarrow> string"
  str_json :: "json \<Rightarrow> string"

definition client_get ::
  "'w runtime \<Rightarrow> 'w \<Rightarrow> string \<Rightarrow> (string \<times> string) list \<Rightarrow> (exn + response) \<times> 'w" where
  "client_get rt w u hs =
     (case send rt w \<lparr> req_method = ''GET'', req_url = u, req_headers = hs, req_json = None \<rparr> of
        (Inl msg, w') \<Rightarrow> (Inl (RequestError msg), w')
      | (Inr r, w') \<Rightarrow> (Inr r, w'))"

definition client_post ::
  "'w runtime \<Rightarrow> 'w \<Rightarrow> string \<Rightarrow> json \<Rightarrow> (string \<times> string) list \<Rightarrow> (exn + response) \<times> 'w" where
  "client_post rt w u body hs =
     (case send rt w \<lparr> req_method = ''POST'', req_url = u, req_headers = hs,
                        req_json = Some body \<rparr> of
        (Inl msg, w') \<Rightarrow> (Inl (RequestError msg), w')
      | (Inr r, w') \<Rightarrow> (Inr r, w'))"

text \<open>\<open>response.raise_for_status()\<close>: any status outside 200 to 299 raises.\<close>

definition raise_for_status :: "response \<Rightarrow> exn + unit" where
  "raise_for_status r =
     (if 200 \<le> status_code r \<and> status_code r \<le> 299 then Inr () else Inl (HTTPStatusError r))"

definition json_of :: "response \<Rightarrow> exn + json" where
  "json_of r = (case resp_json r of None \<Rightarrow> Inl JSONDecodeError | Some j \<Rightarrow> Inr j)"

text \<open>\<open>d.get(k, {}).get("displayName")\<close>.\<close>

definition display_name :: "json \<Rightarrow> string \<Rightarrow> exn + json" where
  "display_name d k = andthen (py_get d k (JObj [])) (\<lambda>person. py_get person ''displayName'' JNull)"

text \<open>The two handlers that close each endpoint: an upstream status error keeps its
  status, anything else is a 500.\<close>

definition handle :: "'w runtime \<Rightarrow> exn + json \<Rightarrow> HTTPException + json" where
  "handle rt r =
     (case r of
        Inr j \<Rightarrow> Inr j
      | Inl (HTTPStatusError resp) \<Rightarrow>
          Inl (HTTPException (status_code resp) (''Azure DevOps API error: '' @ resp_text resp))
      | Inl e \<Rightarrow> Inl (HTTPException 500 (''Internal server error: '' @ str_exn rt e)))"

section \<open>\<open>/work-items\<close>\<close>

definition work_items_query :: "string \<Rightarrow> string" where
  "work_items_query assigned_to =
     newline # ''        SELECT [System.Id], [System.Title], [System.State], [System.AssignedTo], [System.IterationPath], [System.WorkItemType]''
     @ newline # ''        FROM WorkItems ''
     @ newline # ''        WHERE [System.AssignedTo] = '' @ quote # assigned_to @ quote #
       newline # ''        ''"

text \<open>One pass of the loop over the fetched items: \<open>None\<close> for an item the iteration
  filter skips.\<close>

definition simplify_item :: "string \<Rightarrow> json \<Rightarrow> exn + json option" where
  "simplify_item iteration item =
     andthen (py_item item ''fields'') (\<lambda>fields.
     andthen (py_get fields ''System.IterationPath'' (JStr [])) (\<lambda>item_iteration.
     andthen (if iteration \<noteq> [] then andthen (py_in iteration item_iteration) (\<lambda>b. Inr (\<not> b))
              else Inr False) (\<lambda>skip.
     if skip then Inr None
     else
       andthen (py_item item ''id'') (\<lambda>id.
       andthen (py_get fields ''System.Title'' JNull) (\<lambda>title.
       andthen (py_get fields ''System.State'' JNull) (\<lambda>state.
       andthen (display_name fields ''System.AssignedTo'') (\<lambda>assigned_to.
       andthen (py_get fields ''System.WorkItemType'' JNull) (\<lambda>work_item_type.
       andthen (py_get fields ''System.CreatedDate'' JNull) (\<lambda>created_date.
       andthen (py_item item ''url'') (\<lambda>url.
         Inr (Some (JObj
           [(''id'', id), (''title'', title), (''state'', state),
            (''assigned_to'', assigned_to), (''work_item_type'', work_item_type),
            (''iteration'', item_iteration), (''created_date'', created_date),
            (''url'', url)]))))))))))))"

definition simplified_items :: "string \<Rightarrow> json \<Rightarrow> exn + json list" where
  "simplified_items iteration work_items =
     andthen (py_iter work_items) (\<lambda>items.
     andthen (traverse (simplify_item iteration) items) (\<lambda>rs.
       Inr (List.map_filter (\<lambda>r. r) rs)))"

text \<open>\<open>[item["id"] for item in response.json()["workItems"]]\<close>.\<close>

definition work_item_ids_of :: "response \<Rightarrow> exn + json list" where
  "work_item_ids_of response =
     andthen (json_of response) (\<lambda>j.
     andthen (py_item j ''workItems'') (\<lambda>v.
     andthen (py_iter v) (traverse (\<lambda>item. py_item item ''id''))))"

text \<open>The body of the \<open>try\<close> block of \<open>get_work_items\<close>.\<close>

definition work_items_body ::
  "'w runtime \<Rightarrow> static_config \<Rightarrow> azure_config \<Rightarrow> 'w \<Rightarrow> string \<Rightarrow> string \<Rightarrow> (exn + json) \<times> 'w"
  where
  "work_items_body rt cfg azure_config w assigned_to iteration =
     (let url = base_url azure_config @ ''/'' @ project azure_config @ ''/_apis/wit/wiql'';
          iteration_filter =
            (if iteration \<noteq> [] then ''AND [System.IterationPath] = '' @ quote # iteration @ [quote]
             else []);
          wiql_query = JObj [(''query'', JStr (work_items_query assigned_to))];
          headers = get_auth_header cfg (Some (access_token azure_config))
                    @ [(''Content-Type'', ''application/json'')]
      in case client_post rt w (url @ ''?api-version=7.0'') wiql_query headers of
           (Inl e, w1) \<Rightarrow> (Inl e, w1)
         | (Inr response, w1) \<Rightarrow>
             (case andthen (raise_for_status response) (\<lambda>_. work_item_ids_of response) of
                Inl e \<Rightarrow> (Inl e, w1)
              | Inr work_item_ids \<Rightarrow>
                  if work_item_ids = [] then
                    (Inr (JObj [(''work_items'', JArr []), (''count'', JInt 0)]), w1)
                  else
                    (let ids_string = join '','' (map (str_json rt) work_item_ids);
                         details_url = base_url azure_config @ ''/'' @ project azure_config
                                       @ ''/_apis/wit/workitems''
                     in case client_get rt w1
                               (details_url @ ''?ids='' @ ids_string @ ''&api-version=7.0'')
                               (get_auth_header cfg (Some (access_token azure_config))) of
                          (Inl e, w2) \<Rightarrow> (Inl e, w2)
                        | (Inr details_response, w2) \<Rightarrow>
                            (andthen (raise_for_status details_response) (\<lambda>_.
                             andthen (json_of details_response) (\<lambda>j.
                             andthen (py_item j ''value'') (\<lambda>work_items.
                             andthen (simplified_items iteration work_items) (\<lambda>items.
                               Inr (JObj
                                 [(''work_items'', JArr items),
                                  (''count'', JInt (int (length items))),
                                  (''filters'', JObj [(''assigned_to'', JStr assigned_to),
                                                     (''iteration'', JStr iteration)])]))))),
                             w2))))"

definition get_work_items ::
  "'w runtime \<Rightarrow> static_config \<Rightarrow> 'w \<Rightarrow> string \<Rightarrow> string \<Rightarrow> string option \<Rightarrow> string option
     \<Rightarrow> string option \<Rightarrow> string option \<Rightarrow> (HTTPException + json) \<times> 'w" where
  "get_work_items rt cfg w assigned_to iteration x_azure_organization x_azure_project
       x_azure_baseurl authorization =
     (let azure_config = get_azure_config_from_headers cfg x_azure_organization x_azure_project
                           x_azure_baseurl authorization
      in case work_items_body rt cfg azure_config w assigned_to iteration of
           (r, w') \<Rightarrow> (handle rt r, w'))"

section \<open>\<open>/work-item-details\<close>\<close>

definition shape_comment :: "json \<Rightarrow> exn + json" where
  "shape_comment comment =
     andthen (py_item comment ''id'') (\<lambda>id.
     andthen (py_item comment ''text'') (\<lambda>txt.
     andthen (display_name comment ''createdBy'') (\<lambda>created_by.
     andthen (py_get comment ''createdDate'' JNull) (\<lambda>created_date.
       Inr (JObj [(''id'', id), (''text'', txt), (''created_by'', created_by),
                  (''created_date'', created_date)])))))"

definition comments_of :: "response \<Rightarrow> exn + json list" where
  "comments_of comments_response =
     (if status_code comments_response = 200 then
        andthen (json_of comments_response) (\<lambda>comments_data.
        andthen (py_get comments_data ''comments'' (JArr [])) (\<lambda>cs.
        andthen (py_iter cs) (traverse shape_comment)))
      else Inr [])"

definition hierarchy_forward :: string where
  "hierarchy_forward = ''System.LinkTypes.Hierarchy-Forward''"

definition work_items_sep :: string where
  "work_items_sep = ''/workItems/''"

text \<open>One pass of the loop over the relations: the child id the relation adds, if any.\<close>

definition child_id_of :: "json \<Rightarrow> exn + string option" where
  "child_id_of relation =
     andthen (py_get relation ''rel'' JNull) (\<lambda>rel.
     if rel = JStr hierarchy_forward then
       andthen (py_get relation ''url'' (JStr [])) (\<lambda>child_url.
       andthen (py_in work_items_sep child_url) (\<lambda>found.
       if found then
         andthen (py_split child_url work_items_sep) (\<lambda>pieces. Inr (Some (last pieces)))
       else Inr None))
     else Inr None)"

definition child_ids_of :: "json \<Rightarrow> exn + string list" where
  "child_ids_of work_item =
     andthen (py_get work_item ''relations'' (JArr [])) (\<lambda>relations.
     andthen (py_iter relations) (\<lambda>rs.
     andthen (traverse child_id_of rs) (\<lambda>ids.
       Inr (List.map_filter (\<lambda>r. r) ids))))"

definition child_description :: "json \<Rightarrow> exn + json" where
  "child_description child_fields =
     andthen (py_get child_fields ''System.Description'' JNull) (\<lambda>present.
     if py_truthy present then
       andthen (py_get child_fields ''System.Description'' (JStr [])) (\<lambda>d.
       andthen (py_replace d ''<div>'' []) (\<lambda>d1.
       andthen (py_replace d1 ''</div>'' []) (\<lambda>d2.
         py_replace d2 ''<br>'' [newline])))
     else Inr JNull)"

definition shape_child :: "json \<Rightarrow> exn + json" where
  "shape_child child =
     andthen (py_item child ''fields'') (\<lambda>child_fields.
     andthen (py_item child ''id'') (\<lambda>id.
     andthen (py_get child_fields ''System.Title'' JNull) (\<lambda>title.
     andthen (py_get child_fields ''System.State'' JNull) (\<lambda>state.
     andthen (py_get child_fields ''System.WorkItemType'' JNull) (\<lambda>work_item_type.
     andthen (display_name child_fields ''System.AssignedTo'') (\<lambda>assigned_to.
     andthen (child_description child_fields) (\<lambda>description.
       Inr (JObj [(''id'', id), (''title'', title), (''state'', state),
                  (''work_item_type'', work_item_type), (''assigned_to'', assigned_to),
                  (''description'', description)]))))))))"

definition children_of :: "response \<Rightarrow> exn + json list" where
  "children_of children_response =
     (if status_code children_response = 200 then
        andthen (json_of children_response) (\<lambda>children_data.
        andthen (py_get children_data ''value'' (JArr [])) (\<lambda>v.
        andthen (py_iter v) (traverse shape_child)))
      else Inr [])"

definition fetch_children ::
  "'w runtime \<Rightarrow> static_config \<Rightarrow> azure_config \<Rightarrow> 'w \<Rightarrow> string list \<Rightarrow> (exn + json list) \<times> 'w"
  where
  "fetch_children rt cfg azure_config w child_ids =
     (if child_ids \<noteq> [] then
        (let ids_string = join '','' child_ids;
             children_url = base_url azure_config @ ''/'' @ project azure_config
                            @ ''/_apis/wit/workitems''
         in case client_get rt w (children_url @ ''?ids='' @ ids_string @ ''&api-version=7.0'')
                   (get_auth_header cfg (Some (access_token azure_config))) of
              (Inl e, w') \<Rightarrow> (Inl e, w')
            | (Inr children_response, w') \<Rightarrow> (children_of children_response, w'))
      else (Inr [], w))"

text \<open>Cleaning of the description and of the acceptance criteria.\<close>

definition clean_field :: "json \<Rightarrow> string \<Rightarrow> exn + json" where
  "clean_field wi_fields k =
     andthen (py_get wi_fields k (JStr [])) (\<lambda>description.
     if py_truthy description then
       andthen (py_replace description ''<div>'' []) (\<lambda>d1.
       andthen (py_replace d1 ''</div>'' []) (\<lambda>d2.
       andthen (py_replace d2 ''<br>'' [newline]) (\<lambda>d3.
         py_replace d3 ''&nbsp;'' '' '')))
     else Inr description)"

definition work_item_detail :: "json \<Rightarrow> json \<Rightarrow> json list \<Rightarrow> json list \<Rightarrow> exn + json" where
  "work_item_detail work_item wi_fields comments child_items =
     andthen (clean_field wi_fields ''System.Description'') (\<lambda>description.
     andthen (clean_field wi_fields ''Microsoft.VSTS.Common.AcceptanceCriteria'')
       (\<lambda>acceptance_criteria.
     andthen (py_item work_item ''id'') (\<lambda>id.
     andthen (py_get wi_fields ''System.Title'' JNull) (\<lambda>title.
     andthen (py_get wi_fields ''System.State'' JNull) (\<lambda>state.
     andthen (py_get wi_fields ''System.WorkItemType'' JNull) (\<lambda>work_item_type.
     andthen (display_name wi_fields ''System.AssignedTo'') (\<lambda>assigned_to.
     andthen (display_name wi_fields ''System.CreatedBy'') (\<lambda>created_by.
     andthen (py_get wi_fields ''System.CreatedDate'' JNull) (\<lambda>created_date.
     andthen (py_get wi_fields ''System.ChangedDate'' JNull) (\<lambda>changed_date.
     andthen (py_get wi_fields ''System.IterationPath'' JNull) (\<lambda>iteration.
     andthen (py_get wi_fields ''System.AreaPath'' JNull) (\<lambda>area.
     andthen (py_get wi_fields ''Microsoft.VSTS.Common.Priority'' JNull) (\<lambda>priority.
     andthen (py_get wi_fields ''Microsoft.VSTS.Scheduling.StoryPoints'' JNull) (\<lambda>story_points.
     andthen (py_get wi_fields ''System.Tags'' JNull) (\<lambda>tags.
     andthen (py_item work_item ''url'') (\<lambda>url.
       Inr (JObj
         [(''id'', id), (''title'', title), (''description'', description),
          (''acceptance_criteria'', acceptance_criteria), (''state'', state),
          (''work_item_type'', work_item_type), (''assigned_to'', assigned_to),
          (''created_by'', created_by), (''created_date'', created_date),
          (''changed_date'', changed_date), (''iteration'', iteration), (''area'', area),
          (''priority'', priority), (''story_points'', story_points), (''tags'', tags),
          (''comments'', JArr comments), (''child_work_items'', JArr child_items),
          (''child_count'', JInt (int (length child_items))), (''url'', url)])
     ))))))))))))))))"

text \<open>The body of the inner \<open>try\<close> block, for one id.\<close>

definition fetch_detail ::
  "'w runtime \<Rightarrow> static_config \<Rightarrow> azure_config \<Rightarrow> 'w \<Rightarrow> string \<Rightarrow> (exn + json) \<times> 'w" where
  "fetch_detail rt cfg azure_config w single_id =
     (let work_item_url = base_url azure_config @ ''/'' @ project azure_config
                          @ ''/_apis/wit/workitems/'' @ single_id
      in case client_get rt w (work_item_url @ ''?$expand=all&api-version=7.0'')
                (get_auth_header cfg (Some (access_token azure_config))) of
           (Inl e, w1) \<Rightarrow> (Inl e, w1)
         | (Inr response, w1) \<Rightarrow>
             (case andthen (raise_for_status response) (\<lambda>_.
                   andthen (json_of response) (\<lambda>work_item.
                   andthen (py_item work_item ''fields'') (\<lambda>fields.
                     Inr (work_item, fields)))) of
                Inl e \<Rightarrow> (Inl e, w1)
              | Inr (work_item, wi_fields) \<Rightarrow>
                  (let comments_url = base_url azure_config @ ''/'' @ project azure_config
                                      @ ''/_apis/wit/workitems/'' @ single_id @ ''/comments''
                   in case client_get rt w1 (comments_url @ ''?api-version=7.0'')
                             (get_auth_header cfg (Some (access_token azure_config))) of
                        (Inl e, w2) \<Rightarrow> (Inl e, w2)
                      | (Inr comments_response, w2) \<Rightarrow>
                          (case andthen (comments_of comments_response) (\<lambda>comments.
                                andthen (child_ids_of work_item) (\<lambda>child_ids.
                                  Inr (comments, child_ids))) of
                             Inl e \<Rightarrow> (Inl e, w2)
                           | Inr (comments, child_ids) \<Rightarrow>
                               (case fetch_children rt cfg azure_config w2 child_ids of
                                  (Inl e, w3) \<Rightarrow> (Inl e, w3)
                                | (Inr child_items, w3) \<Rightarrow>
                                    (work_item_detail work_item wi_fields comments child_items,
                                     w3))))))"

text \<open>The inner \<open>try\<close> with its handler: the detail record, or the error record of
  the id.\<close>

definition error_record :: "'w runtime \<Rightarrow> string \<Rightarrow> exn \<Rightarrow> json" where
  "error_record rt single_id e =
     JObj [(''id'', JStr single_id),
           (''error'', JStr (''Failed to fetch details: '' @ str_exn rt e))]"

definition fetch_entry ::
  "'w runtime \<Rightarrow> static_config \<Rightarrow> azure_config \<Rightarrow> 'w \<Rightarrow> string \<Rightarrow> json \<times> 'w" where
  "fetch_entry rt cfg azure_config w single_id =
     (case fetch_detail rt cfg azure_config w single_id of
        (Inr detail, w') \<Rightarrow> (detail, w')
      | (Inl e, w') \<Rightarrow> (error_record rt single_id e, w'))"

text \<open>The loop over the requested ids.\<close>

fun fetch_all ::
  "'w runtime \<Rightarrow> static_config \<Rightarrow> azure_config \<Rightarrow> 'w \<Rightarrow> string list \<Rightarrow> json list \<times> 'w" where
  "fetch_all rt cfg azure_config w [] = ([], w)"
| "fetch_all rt cfg azure_config w (single_id # rest) =
     (case fetch_entry rt cfg azure_config w single_id of
        (entry, w1) \<Rightarrow>
          (case fetch_all rt cfg azure_config w1 rest of
             (entries, w2) \<Rightarrow> (entry # entries, w2)))"

text \<open>Nothing outside the inner \<open>try\<close> raises, so the two outer handlers are never
  entered and the endpoint always returns.\<close>

definition get_work_item_details ::
  "'w runtime \<Rightarrow> static_config \<Rightarrow> 'w \<Rightarrow> string \<Rightarrow> string option \<Rightarrow> string option
     \<Rightarrow> string option \<Rightarrow> string option \<Rightarrow> (HTTPException + json) \<times> 'w" where
  "get_work_item_details rt cfg w work_item_id x_azure_organization x_azure_project
       x_azure_baseurl authorization =
     (let azure_config = get_azure_config_from_headers cfg x_azure_organization x_azure_project
                           x_azure_baseurl authorization;
          work_item_ids = map strip (str_split work_item_id '','')
      in case fetch_all rt cfg azure_config w work_item_ids of
           (all_work_items, w') \<Rightarrow>
             (if length work_item_ids = 1 then
                (case all_work_items of
                   [] \<Rightarrow> Inr (JObj [(''error'', JStr ''No work items found'')])
                 | first # _ \<Rightarrow> Inr first)
              else
                Inr (JObj [(''work_items'', JArr all_work_items),
                           (''count'', JInt (int (length all_work_items)))]),
              w'))"

section \<open>\<open>/my-iterations\<close>\<close>

definition my_iterations_query :: "string \<Rightarrow> string" where
  "my_iterations_query assigned_to =
     newline # ''        SELECT [System.Id], [System.IterationPath]''
     @ newline # ''        FROM WorkItems ''
     @ newline # ''        WHERE [System.AssignedTo] = '' @ quote # assigned_to @ quote #
       newline # ''        ''"

text \<open>
  The set \<open>iterations\<close> is the list of the values added so far. One pass of the loop
  adds the iteration path of an item when it is truthy; a list or a dictionary cannot
  be put in a set (\<open>TypeError\<close>).
\<close>

definition add_iteration :: "json list \<Rightarrow> json \<Rightarrow> exn + json list" where
  "add_iteration iterations item =
     andthen (py_item item ''fields'') (\<lambda>fields.
     andthen (py_get fields ''System.IterationPath'' JNull) (\<lambda>iteration_path.
     if py_truthy iteration_path then
       (case iteration_path of
          JArr _ \<Rightarrow> Inl TypeError
        | JObj _ \<Rightarrow> Inl TypeError
        | _ \<Rightarrow> Inr (iterations @ [iteration_path]))
     else Inr iterations))"

fun collect_iterations :: "json list \<Rightarrow> json list \<Rightarrow> exn + json list" where
  "collect_iterations iterations [] = Inr iterations"
| "collect_iterations iterations (item # rest) =
     andthen (add_iteration iterations item) (\<lambda>iterations'. collect_iterations iterations' rest)"

text \<open>
  \<open>sorted(list(iterations))\<close> followed by the comprehension. When every member is
  text, the result is the distinct paths in ascending order. A member that is a number
  or a boolean ends in a \<open>TypeError\<close>: from \<open>sorted\<close> when text is present as well,
  from \<open>"\\" in iteration\<close> otherwise.
\<close>

definition sorted_iterations :: "json list \<Rightarrow> exn + string list" where
  "sorted_iterations iterations =
     andthen (traverse (\<lambda>v. case v of JStr s \<Rightarrow> Inr s | _ \<Rightarrow> Inl TypeError) iterations)
       (\<lambda>paths. Inr (sort (remdups paths)))"

definition backslash :: char where
  "backslash = CHR 0x5C"

definition shape_iteration :: "string \<Rightarrow> json" where
  "shape_iteration iteration =
     JObj [(''path'', JStr iteration),
           (''name'', JStr (if str_contains [backslash] iteration
                           then last (str_split iteration [backslash]) else iteration)),
           (''is_active'', JBool (str_contains ''Active'' iteration))]"

definition my_iterations_body ::
  "'w runtime \<Rightarrow> static_config \<Rightarrow> azure_config \<Rightarrow> 'w \<Rightarrow> string \<Rightarrow> (exn + json) \<times> 'w" where
  "my_iterations_body rt cfg azure_config w assigned_to =
     (let url = base_url azure_config @ ''/'' @ project azure_config
                @ ''/_apis/wit/wiql'';
          wiql_query = JObj [(''query'', JStr (my_iterations_query assigned_to))]
      in case client_post rt w (url @ ''?api-version=7.0'') wiql_query
                (get_auth_header cfg (Some (access_token azure_config))) of
           (Inl e, w1) \<Rightarrow> (Inl e, w1)
         | (Inr response, w1) \<Rightarrow>
             (case andthen (raise_for_status response) (\<lambda>_. work_item_ids_of response) of
                Inl e \<Rightarrow> (Inl e, w1)
              | Inr work_item_ids \<Rightarrow>
                  if work_item_ids = [] then
                    (Inr (JObj [(''iterations'', JArr []), (''count'', JInt 0)]), w1)
                  else
                    (let ids_string = join '','' (map (str_json rt) work_item_ids);
                         details_url = base_url azure_config @ ''/''
                                       @ project azure_config
                                       @ ''/_apis/wit/workitems''
                     in case client_get rt w1
                               (details_url @ ''?ids='' @ ids_string
                                @ ''&fields=System.IterationPath&api-version=7.0'')
                               (get_auth_header cfg (Some (access_token azure_config))) of
                          (Inl e, w2) \<Rightarrow> (Inl e, w2)
                        | (Inr details_response, w2) \<Rightarrow>
                            (andthen (raise_for_status details_response) (\<lambda>_.
                             andthen (json_of details_response) (\<lambda>j.
                             andthen (py_item j ''value'') (\<lambda>work_items.
                             andthen (py_iter work_items) (\<lambda>items.
                             andthen (collect_iterations [] items) (\<lambda>iterations.
                             andthen (sorted_iterations iterations) (\<lambda>sorted_its.
                               Inr (JObj
                                 [(''iterations'', JArr (map shape_iteration sorted_its)),
                                  (''count'', JInt (int (length sorted_its)))]))))))),
                             w2))))"

definition get_my_iterations ::
  "'w runtime \<Rightarrow> static_config \<Rightarrow> 'w \<Rightarrow> string \<Rightarrow> string option \<Rightarrow> string option
     \<Rightarrow> string option \<Rightarrow> string option \<Rightarrow> (HTTPException + json) \<times> 'w" where
  "get_my_iterations rt cfg w assigned_to x_azure_organization x_azure_project
       x_azure_baseurl authorization =
     (let azure_config = get_azure_config_from_headers cfg x_azure_organization x_azure_project
                           x_azure_baseurl authorization
      in case my_iterations_body rt cfg azure_config w assigned_to of
           (r, w') \<Rightarrow> (handle rt r, w'))"

section \<open>\<open>/test-connection\<close>\<close>

text \<open>The body of a \<open>/test-connection\<close> request.\<close>

record TestConnectionRequest =
  organization :: string
  project :: string
  baseUrl :: string
  accessToken :: string

definition error_details :: string where
  "error_details =
     ''Invalid Personal Access Token (PAT) or insufficient permissions. Please check:''
     @ newline # ''1. Your PAT is not expired''
     @ newline # ''2. Your PAT has '' @ quote # ''Project and Team (read)'' @ quote
     # '' permissions''
     @ newline # ''3. You have access to the organization and project''"

definition not_found_detail :: string where
  "not_found_detail =
     ''Project or organization not found. Please verify the organization name and project name are correct.''"

text \<open>The handler of \<open>httpx.HTTPStatusError\<close> in \<open>test_connection\<close>.\<close>

definition status_error :: "response \<Rightarrow> HTTPException + json" where
  "status_error r =
     (if status_code r = 400 \<and> str_contains ''size limit'' (resp_text r) then
        Inr (JObj [(''status'', JStr ''success''),
                   (''message'', JStr ''Connection successful (large dataset detected)'')])
      else if status_code r = 401 then Inl (HTTPException 400 error_details)
      else if status_code r = 404 then Inl (HTTPException 400 not_found_detail)
      else Inl (HTTPException 400 (''Azure DevOps API error: '' @ resp_text r)))"

definition test_query :: json where
  "test_query =
     JObj [(''query'',
            JStr (''SELECT [System.Id] FROM WorkItems WHERE [System.AssignedTo] = ''
                  @ quote # ''test@example.com'' @ [quote]))]"

definition test_request :: "static_config \<Rightarrow> TestConnectionRequest \<Rightarrow> request" where
  "test_request cfg settings =
     (let b = (if prefix ''http://'' (baseUrl settings) \<or> prefix ''https://'' (baseUrl settings)
               then baseUrl settings else ''https://'' @ baseUrl settings);
          url = b @ ''/'' @ project settings @ ''/_apis/wit/wiql'';
          headers = get_auth_header cfg (Some (accessToken settings))
                    @ [(''Content-Type'', ''application/json'')]
      in \<lparr> req_method = ''POST'', req_url = url @ ''?api-version=7.0'', req_headers = headers,
           req_json = Some test_query \<rparr>)"

definition test_connection ::
  "'w runtime \<Rightarrow> static_config \<Rightarrow> 'w \<Rightarrow> TestConnectionRequest \<Rightarrow> (HTTPException + json) \<times> 'w"
  where
  "test_connection rt cfg w settings =
     (let q = test_request cfg settings
      in case client_post rt w (req_url q) test_query (req_headers q) of
           (Inl e, w') \<Rightarrow> (Inl (HTTPException 400 (''Connection failed: '' @ str_exn rt e)), w')
         | (Inr response, w') \<Rightarrow>
             (case raise_for_status response of
                Inr _ \<Rightarrow> Inr (JObj [(''status'', JStr ''success''),
                                    (''message'', JStr ''Connection successful'')])
              | Inl (HTTPStatusError r) \<Rightarrow> status_error r
              | Inl e \<Rightarrow> Inl (HTTPException 400 (''Connection failed: '' @ str_exn rt e)),
              w'))"

text \<open>A runtime that also keeps the list of the requests it was sent.\<close>

definition recording :: "'w runtime \<Rightarrow> ('w \<times> request list) runtime" where
  "recording rt =
     \<lparr> send = (\<lambda>(w, sent) q. case send rt w q of (r, w') \<Rightarrow> (r, (w', sent @ [q]))),
       str_exn = str_exn rt,
       str_json = str_json rt \<rparr>"

section \<open>Worked examples\<close>

text \<open>The defaults the program falls back on when \<open>config.yaml\<close> gives none.\<close>

definition example_config :: static_config where
  "example_config =
     \<lparr> AZURE_DEVOPS_ORG = ''your-org'', AZURE_DEVOPS_PROJECT = ''YourProject'',
       AZURE_ACCESS_TOKEN = ''your-pat-token'',
       BASE_URL = ''https://your-org.visualstudio.com'' \<rparr>"

text \<open>An example runtime: the service answers each request by a fixed function of the
  request, \<open>str\<close> prints integers in decimal and text as it is.\<close>

function str_nat :: "nat \<Rightarrow> string" where
  "str_nat n = (if n < 10 then [char_of (48 + n)] else str_nat (n div 10) @ [char_of (48 + n mod 10)])"
  by pat_completeness auto
termination
  by (relation "measure (\<lambda>n. n)") auto

definition example_str_json :: "json \<Rightarrow> string" where
  "example_str_json v =
     (case v of
        JInt i \<Rightarrow> (if i < 0 then CHR ''-'' # str_nat (nat (- i)) else str_nat (nat i))
      | JStr s \<Rightarrow> s
      | JNull \<Rightarrow> ''None''
      | JBool b \<Rightarrow> (if b then ''True'' else ''False'')
      | _ \<Rightarrow> ''...'')"

definition example_str_exn :: "exn \<Rightarrow> string" where
  "example_str_exn e =
     (case e of
        KeyError k \<Rightarrow> quote # k @ [quote]
      | RequestError msg \<Rightarrow> msg
      | HTTPStatusError r \<Rightarrow> ''Client error''
      | _ \<Rightarrow> ''error'')"

definition serve :: "(request \<Rightarrow> string + response) \<Rightarrow> unit runtime" where
  "serve f = \<lparr> send = (\<lambda>w q. (f q, w)), str_exn = example_str_exn, str_json = example_str_json \<rparr>"

definition example_settings :: TestConnectionRequest where
  "example_settings =
     \<lparr> organization = ''org'', project = ''proj'', baseUrl = ''dev.azure.com/org'',
       accessToken = ''token'' \<rparr>"

text \<open>An example service: work item 1 has the child 3 and a parent link, work item 2
  is in another sprint, and no other work item exists.\<close>

definition example_item1 :: json where
  "example_item1 =
     JObj [(''id'', JInt 1),
           (''fields'', JObj
              [(''System.Title'', JStr ''Parent story''),
               (''System.State'', JStr ''Active''),
               (''System.AssignedTo'', JObj [(''displayName'', JStr ''Ann'')]),
               (''System.IterationPath'', JStr (''Proj'' @ backslash # ''Sprint 1'')),
               (''System.Description'', JStr ''<div>a&nbsp;b<br>c</div>'')]),
           (''relations'', JArr
              [JObj [(''rel'', JStr ''System.LinkTypes.Hierarchy-Forward''),
                     (''url'', JStr ''https://your-org.visualstudio.com/_apis/wit/workItems/3'')],
               JObj [(''rel'', JStr ''System.LinkTypes.Hierarchy-Reverse''),
                     (''url'', JStr ''https://your-org.visualstudio.com/_apis/wit/workItems/9'')]]),
           (''url'', JStr ''https://your-org.visualstudio.com/_apis/wit/workItems/1'')]"

definition example_item2 :: json where
  "example_item2 =
     JObj [(''id'', JInt 2),
           (''fields'', JObj
              [(''System.Title'', JStr ''Other task''),
               (''System.IterationPath'', JStr (''Proj'' @ backslash # ''Sprint 2''))]),
           (''url'', JStr ''https://your-org.visualstudio.com/_apis/wit/workItems/2'')]"

definition example_item3 :: json where
  "example_item3 =
     JObj [(''id'', JInt 3),
           (''fields'', JObj
              [(''System.Title'', JStr ''Child task''),
               (''System.Description'', JStr ''<div>a&nbsp;b<br>c</div>'')]),
           (''url'', JStr ''https://your-org.visualstudio.com/_apis/wit/workItems/3'')]"

definition ok :: "json \<Rightarrow> string + response" where
  "ok j = Inr \<lparr> status_code = 200, resp_text = [], resp_json = Some j \<rparr>"

definition example_upstream :: "request \<Rightarrow> string + response" where
  "example_upstream q =
     (if req_method q = ''POST'' then
        ok (JObj [(''workItems'', JArr [JObj [(''id'', JInt 1)], JObj [(''id'', JInt 2)]])])
      else if str_contains ''/comments?'' (req_url q) then
        ok (JObj [(''comments'', JArr [JObj [(''id'', JInt 7), (''text'', JStr ''Looks good'')]])])
      else if str_contains ''?ids=1,2&'' (req_url q) then
        ok (JObj [(''value'', JArr [example_item1, example_item2])])
      else if str_contains ''?ids=3&'' (req_url q) then
        ok (JObj [(''value'', JArr [example_item3])])
      else if str_contains ''/workitems/1?'' (req_url q) then ok example_item1
      else Inr \<lparr> status_code = 404, resp_text = ''not found'', resp_json = None \<rparr>)"

definition example_work_items :: "string \<Rightarrow> (HTTPException + json) \<times> unit" where
  "example_work_items iteration =
     get_work_items (serve example_upstream) example_config () ''ann@example.com'' iteration
       None None None None"

definition example_details :: "string \<Rightarrow> (HTTPException + json) \<times> unit" where
  "example_details work_item_id =
     get_work_item_details (serve example_upstream) example_config () work_item_id
       None None None None"

definition example_iterations :: "(HTTPException + json) \<times> unit" where
  "example_iterations =
     get_my_iterations (serve example_upstream) example_config () ''ann@example.com''
       None None None None"

text \<open>The keys of a detail record, in the order \<open>work_item_detail\<close> is built.\<close>

definition detail_keys :: "string list" where
  "detail_keys =
     [''id'', ''title'', ''description'', ''acceptance_criteria'', ''state'', ''work_item_type'',
      ''assigned_to'', ''created_by'', ''created_date'', ''changed_date'', ''iteration'',
      ''area'', ''priority'', ''story_points'', ''tags'', ''comments'', ''child_work_items'',
      ''child_count'', ''url'']"

definition example_azure_config :: azure_config where
  "example_azure_config = get_azure_config_from_headers example_config None None None None"

section \<open>The child id in the words of the specification\<close>

text \<open>
  The specification describes the child id as the segment of the URL after the last
  occurrence of \<open>/workItems/\<close>. \<open>spec_after_last sep s\<close> is that segment, for a text
  \<open>s\<close> in which \<open>sep\<close> occurs: while \<open>sep\<close> still occurs further to the right the
  search moves on, and what follows the occurrence found last is returned. It is
  compared below with \<open>last (str_split s sep)\<close>, which is what the program computes.
\<close>

fun spec_after_last :: "string \<Rightarrow> string \<Rightarrow> string" where
  "spec_after_last sep [] = []"
| "spec_after_last sep (c # cs) =
     (if str_contains sep cs then spec_after_last sep cs else drop (length sep) (c # cs))"

section \<open>Properties of the configuration resolver\<close>

subsection \<open>Base64 decoding undoes encoding\<close>

lemma table_a2b_b2a: "n < 64 \<Longrightarrow> table_a2b (b2a n) = Some n"
  by (auto simp: table_a2b_def b2a_def Let_def)

lemma b2a_ascii: "(of_char (b2a n) :: nat) < 128"
  by (auto simp: b2a_def)

lemma b2a_not_pad: "b2a n \<noteq> CHR ''=''"
proof
  assume "b2a n = CHR ''=''"
  then have "(of_char (b2a n) :: nat) = of_char (CHR ''='')" by simp
  then have "(of_char (b2a n) :: nat) = 61" by simp
  then show False
    by (simp add: b2a_def split: if_splits)
qed

lemma a2b_step:
  assumes "n < 64"
  shows "a2b_loop q l p out (b2a n # rest) =
     (if q = 0 then a2b_loop 1 n 0 out rest
      else if q = 1 then a2b_loop 2 (n mod 16) 0 (out @ [char_of (l * 4 + n div 16)]) rest
      else if q = 2 then a2b_loop 3 (n mod 4) 0 (out @ [char_of (l * 16 + n div 4)]) rest
      else a2b_loop 0 0 0 (out @ [char_of (l * 64 + n)]) rest)"
  using assms by (simp add: table_a2b_b2a b2a_not_pad)

lemma a2b_pad:
  "a2b_loop q l p out (CHR ''='' # rest) =
     (if q \<ge> 2 then (if q + (p + 1) \<ge> 4 then Inr out else a2b_loop q l (p + 1) out rest)
      else a2b_loop q l p out rest)"
  by simp

lemma byte_bound: "(of_char (c::char) :: nat) < 256"
  by (metis of_char_mod_256 mod_less_divisor zero_less_numeral)

lemma idx_bounds:
  "(x::nat) < 256 \<Longrightarrow> x div 4 < 64"
  "(x::nat) mod 4 * 16 < 64"
  "(y::nat) < 256 \<Longrightarrow> x mod 4 * 16 + y div 16 < 64"
  "(y::nat) mod 16 * 4 < 64"
  "(z::nat) < 256 \<Longrightarrow> y mod 16 * 4 + z div 64 < 64"
  "(z::nat) mod 64 < 64"
proof -
  show "x < 256 \<Longrightarrow> x div 4 < 64" by simp
  have m: "x mod 4 < 4" "y mod 16 < 16" by simp_all
  from m show "x mod 4 * 16 < 64" by linarith
  from m show "y mod 16 * 4 < 64" by linarith
  show "z mod 64 < 64" by simp
  { assume "y < 256" then have "y div 16 < 16" by simp
    with m show "x mod 4 * 16 + y div 16 < 64" by linarith }
  { assume "z < 256" then have "z div 64 < 4" by simp
    with m show "y mod 16 * 4 + z div 64 < 64" by linarith }
qed

lemma small_parts:
  assumes "(y::nat) < 256"
  shows "y div 16 div 16 = 0" "y div 16 mod 16 = y div 16"
    "y div 64 div 4 = 0" "y div 64 mod 4 = y div 64"
proof -
  from assms have a: "y div 16 < 16" and b: "y div 64 < 4" by simp_all
  from a show "y div 16 div 16 = 0" "y div 16 mod 16 = y div 16" by simp_all
  from b show "y div 64 div 4 = 0" "y div 64 mod 4 = y div 64" by simp_all
qed

lemma a2b_loop_one: "a2b_loop 0 l 0 out (b64encode [a]) = Inr (out @ [a])"
proof -
  have x: "(of_char a :: nat) < 256" by (rule byte_bound)
  have e: "(of_char a :: nat) div 4 * 4 + (of_char a mod 4 * 16) div 16 = of_char a"
    by simp
  show ?thesis
    by (simp add: Let_def a2b_step a2b_pad idx_bounds x e del: a2b_loop.simps(2))
qed

lemma a2b_loop_two: "a2b_loop 0 l 0 out (b64encode [a, b]) = Inr (out @ [a, b])"
proof -
  have x: "(of_char a :: nat) < 256" and y: "(of_char b :: nat) < 256"
    by (rule byte_bound)+
  show ?thesis
    by (simp add: Let_def a2b_step a2b_pad idx_bounds x y small_parts[OF y]
             del: a2b_loop.simps(2))
qed

lemma a2b_loop_three:
  "a2b_loop 0 l 0 out (b64encode (a # b # c # rest)) =
     a2b_loop 0 0 0 (out @ [a, b, c]) (b64encode rest)"
proof -
  have x: "(of_char a :: nat) < 256" and y: "(of_char b :: nat) < 256"
    and z: "(of_char c :: nat) < 256"
    by (rule byte_bound)+
  show ?thesis
    by (simp add: Let_def a2b_step a2b_pad idx_bounds x y z small_parts[OF y]
                  small_parts[OF z] del: a2b_loop.simps(2))
qed

lemma a2b_loop_b64encode: "a2b_loop 0 l 0 out (b64encode bs) = Inr (out @ bs)"
proof (induction bs arbitrary: l out rule: b64encode.induct)
  case 1
  show ?case by simp
next
  case (2 a)
  show ?case by (rule a2b_loop_one)
next
  case (3 a b)
  show ?case by (rule a2b_loop_two)
next
  case (4 a b c rest)
  show ?case by (simp only: a2b_loop_three "4.IH") simp
qed

lemma b64encode_ascii: "c \<in> set (b64encode bs) \<Longrightarrow> (of_char c :: nat) < 128"
  by (induction bs rule: b64encode.induct) (auto simp: Let_def b2a_ascii)

lemma b64decode_b64encode: "b64decode (b64encode bs) = Inr bs"
  using b64encode_ascii[of _ bs] a2b_loop_b64encode[of 0 "[]" bs]
  by (auto simp: b64decode_def not_le)

lemma decode_basic_basic_value:
  "utf8_valid T \<Longrightarrow> decode_basic (basic_value T) = Inr (Some T)"
  by (simp add: decode_basic_def basic_value_def b64decode_b64encode bytes_decode_def
        between_def)

subsection \<open>The token of a Basic header\<close>

text \<open>
  Claim C1, as amended. For every token \<open>T\<close> (a well-formed text), a request whose
  Authorization header is \<open>Basic base64(":" + T)\<close> has its access token resolved to
  \<open>T\<close> when \<open>T\<close> is not empty; for the empty token the resolver's
  \<open>access_token or AZURE_ACCESS_TOKEN\<close> substitutes the static default.
\<close>

theorem resolver_extracts_token:
  assumes "utf8_valid T"
  shows "access_token (get_azure_config_from_headers cfg xo xp xb (Some (basic_value T)))
         = (if T = [] then AZURE_ACCESS_TOKEN cfg else T)"
proof -
  have "basic_value T \<noteq> []" "prefix ''Basic '' (basic_value T)"
    by (simp_all add: basic_value_def)
  then show ?thesis
    using decode_basic_basic_value[OF assms]
    by (simp add: get_azure_config_from_headers_def py_or_def)
qed

theorem resolver_extracts_token_witness:
  "utf8_valid ''abc'' \<and>
   access_token (get_azure_config_from_headers
      \<lparr> AZURE_DEVOPS_ORG = ''your-org'', AZURE_DEVOPS_PROJECT = ''YourProject'',
        AZURE_ACCESS_TOKEN = ''your-pat-token'',
        BASE_URL = ''https://your-org.visualstudio.com'' \<rparr>
      None None None (Some (basic_value ''abc''))) = ''abc''"
proof -
  have v: "utf8_valid ''abc''" by (simp add: between_def)
  show ?thesis using v resolver_extracts_token[OF v] by simp
qed

text \<open>
  Claim C1 as stated fails at the empty token: the header is \<open>Basic Og==\<close>, the decoded
  payload is \<open>":"\<close>, the extracted token is \<open>""\<close>, which is falsy, and the resolver
  returns the static default \<open>your-pat-token\<close> instead of \<open>""\<close>.
\<close>

theorem empty_token_counterexample:
  "basic_value [] = ''Basic Og=='' \<and>
   access_token (get_azure_config_from_headers
      \<lparr> AZURE_DEVOPS_ORG = ''your-org'', AZURE_DEVOPS_PROJECT = ''YourProject'',
        AZURE_ACCESS_TOKEN = ''your-pat-token'',
        BASE_URL = ''https://your-org.visualstudio.com'' \<rparr>
      None None None (Some (basic_value []))) = ''your-pat-token''"
proof -
  have "basic_value [] = ''Basic Og==''" by code_simp
  moreover have "decode_basic (basic_value []) = Inr (Some [])"
    by (rule decode_basic_basic_value) simp
  ultimately show ?thesis
    by (simp add: get_azure_config_from_headers_def py_or_def)
qed

subsection \<open>Falling back to the static token\<close>

lemma b64decode_short: "b64decode ''Og'' = Inl BinasciiError"
  by code_simp

lemma b64decode_not_utf8: "b64decode ''/w=='' = Inr [char_of (255::nat)]"
  by code_simp

lemma b64decode_no_colon: "b64decode ''YWJj'' = Inr ''abc''"
  by code_simp

text \<open>
  Claim C9. When the Authorization header is missing, does not start with \<open>Basic \<close>,
  fails Base64 decoding, decodes to bytes that are not UTF-8, or decodes to a text
  that does not start with a colon, the resolver uses the static default token. The
  resolver is a total function: every exception of its \<open>try\<close> block is caught, so
  it returns a configuration in each of these cases.
\<close>

theorem resolver_falls_back:
  assumes "authorization = None
         \<or> authorization = Some a \<and>
             (\<not> prefix ''Basic '' a
              \<or> (\<exists>e. b64decode (drop 6 a) = Inl e)
              \<or> (\<exists>bs. b64decode (drop 6 a) = Inr bs
                       \<and> (\<not> utf8_valid bs \<or> \<not> prefix '':'' bs)))"
  shows "access_token (get_azure_config_from_headers cfg xo xp xb authorization)
         = AZURE_ACCESS_TOKEN cfg"
  using assms
  by (auto simp: get_azure_config_from_headers_def py_or_def decode_basic_def bytes_decode_def
           split: option.split sum.split)

theorem resolver_falls_back_witness:
  "access_token (get_azure_config_from_headers example_config None None None None)
     = ''your-pat-token''
   \<and> access_token (get_azure_config_from_headers example_config None None None
        (Some ''Bearer abc'')) = ''your-pat-token''
   \<and> b64decode ''Og'' = Inl BinasciiError
   \<and> access_token (get_azure_config_from_headers example_config None None None
        (Some ''Basic Og'')) = ''your-pat-token''
   \<and> b64decode ''/w=='' = Inr [char_of (255::nat)] \<and> \<not> utf8_valid [char_of (255::nat)]
   \<and> access_token (get_azure_config_from_headers example_config None None None
        (Some ''Basic /w=='')) = ''your-pat-token''
   \<and> b64decode ''YWJj'' = Inr ''abc''
   \<and> access_token (get_azure_config_from_headers example_config None None None
        (Some ''Basic YWJj'')) = ''your-pat-token''"
proof -
  have v: "\<not> utf8_valid [char_of (255::nat)]" by (simp add: between_def)
  have d: "AZURE_ACCESS_TOKEN example_config = ''your-pat-token''"
    by (simp add: example_config_def)
  show ?thesis
    using resolver_falls_back[of None _ example_config None None None]
      resolver_falls_back[of "Some ''Bearer abc''" "''Bearer abc''" example_config
        None None None]
      resolver_falls_back[of "Some ''Basic Og''" "''Basic Og''" example_config
        None None None]
      resolver_falls_back[of "Some ''Basic /w==''" "''Basic /w==''" example_config
        None None None]
      resolver_falls_back[of "Some ''Basic YWJj''" "''Basic YWJj''" example_config
        None None None]
      b64decode_short b64decode_not_utf8 b64decode_no_colon v d
    by simp
qed

section \<open>Properties of the endpoints\<close>

subsection \<open>Sequencing\<close>

lemma andthen_simps [simp]:
  "andthen (Inl e) f = Inl e" "andthen (Inr x) f = f x"
  by (simp_all add: andthen_def)

text \<open>\<open>str_contains\<close> is containment as a substring.\<close>

lemma str_contains_iff:
  "str_contains sub s \<longleftrightarrow> (\<exists>before after. s = before @ sub @ after)"
proof (induction s)
  case Nil
  show ?case by auto
next
  case (Cons c cs)
  show ?case
  proof
    assume "str_contains sub (c # cs)"
    then consider "prefix sub (c # cs)" | "str_contains sub cs" by auto
    then show "\<exists>before after. c # cs = before @ sub @ after"
    proof cases
      case 1
      then obtain after where "c # cs = sub @ after" by (auto simp: prefix_def)
      then have "c # cs = [] @ sub @ after" by simp
      then show ?thesis by blast
    next
      case 2
      with Cons.IH obtain before after where "cs = before @ sub @ after" by blast
      then have "c # cs = (c # before) @ sub @ after" by simp
      then show ?thesis by blast
    qed
  next
    assume "\<exists>before after. c # cs = before @ sub @ after"
    then obtain before after where e: "c # cs = before @ sub @ after" by blast
    show "str_contains sub (c # cs)"
    proof (cases before)
      case Nil
      with e have "prefix sub (c # cs)" by (simp add: prefix_def)
      then show ?thesis by simp
    next
      case (Cons b bs)
      with e have "cs = bs @ sub @ after" by simp
      with Cons.IH have "str_contains sub cs" by blast
      then show ?thesis by simp
    qed
  qed
qed

lemma andthen_Inr: "andthen m f = Inr y \<longleftrightarrow> (\<exists>x. m = Inr x \<and> f x = Inr y)"
  by (cases m) auto

lemma traverse_Inr: "traverse f xs = Inr ys \<Longrightarrow> list_all2 (\<lambda>x y. f x = Inr y) xs ys"
  by (induction xs arbitrary: ys) (auto simp: andthen_Inr)

lemma py_get_Inr:
  "py_get d k dflt = Inr v \<longleftrightarrow>
     (\<exists>kvs. d = JObj kvs \<and> v = (case map_of kvs k of None \<Rightarrow> dflt | Some x \<Rightarrow> x))"
  by (auto simp: py_get_def split: json.splits option.splits)

lemma py_item_Inr:
  "py_item d k = Inr v \<longleftrightarrow> (\<exists>kvs. d = JObj kvs \<and> map_of kvs k = Some v)"
  by (auto simp: py_item_def split: json.splits option.splits)

lemma py_item_JObj [simp]:
  "py_item (JObj kvs) k = (case map_of kvs k of None \<Rightarrow> Inl (KeyError k) | Some v \<Rightarrow> Inr v)"
  by (simp add: py_item_def)

lemma py_in_JStr [simp]: "py_in sub (JStr s) = Inr (str_contains sub s)"
  by (simp add: py_in_def)

lemma simplify_item_Some:
  assumes "simplify_item iteration f = Inr (Some it)"
  shows "\<exists>fields path.
           py_item f ''fields'' = Inr fields
         \<and> py_get fields ''System.IterationPath'' (JStr []) = Inr path
         \<and> (iteration \<noteq> [] \<longrightarrow> py_in iteration path = Inr True)
         \<and> py_item it ''iteration'' = Inr path
         \<and> py_item it ''id'' = py_item f ''id''
         \<and> py_item it ''url'' = py_item f ''url''"
  using assms
  by (auto simp: simplify_item_def andthen_Inr split: if_splits)

lemma simplify_item_empty: "simplify_item [] f = Inr r \<Longrightarrow> r \<noteq> None"
  by (auto simp: simplify_item_def andthen_Inr split: if_splits)

subsection \<open>The loop of \<open>/work-items\<close>\<close>

lemma map_filter_all_Some:
  "\<forall>r \<in> set rs. r \<noteq> None \<Longrightarrow> map Some (List.map_filter (\<lambda>r. r) rs) = rs"
  by (induction rs) (auto simp: List.map_filter_simps)

lemma set_map_filter_id: "x \<in> set (List.map_filter (\<lambda>r. r) rs) \<longleftrightarrow> Some x \<in> set rs"
  by (induction rs) (auto simp: List.map_filter_simps split: option.splits)

lemma list_all2_right:
  "list_all2 P xs ys \<Longrightarrow> y \<in> set ys \<Longrightarrow> \<exists>x \<in> set xs. P x y"
  by (induction rule: list_all2_induct) auto

lemma simplified_items_filtered:
  assumes "simplified_items iteration work_items = Inr items"
    and "py_iter work_items = Inr fetched"
    and "it \<in> set items"
  shows "\<exists>f \<in> set fetched. simplify_item iteration f = Inr (Some it)"
proof -
  from assms(1,2) obtain rs where rs: "traverse (simplify_item iteration) fetched = Inr rs"
    and items: "items = List.map_filter (\<lambda>r. r) rs"
    by (auto simp: simplified_items_def andthen_Inr)
  from assms(3) items have "Some it \<in> set rs" by (simp add: set_map_filter_id)
  with traverse_Inr[OF rs] show ?thesis
    by (rule list_all2_right)
qed

lemma simplified_items_unfiltered:
  assumes "simplified_items [] work_items = Inr items"
    and "py_iter work_items = Inr fetched"
  shows "list_all2 (\<lambda>f it. simplify_item [] f = Inr (Some it)) fetched items"
proof -
  from assms obtain rs where rs: "traverse (simplify_item []) fetched = Inr rs"
    and items: "items = List.map_filter (\<lambda>r. r) rs"
    by (auto simp: simplified_items_def andthen_Inr)
  have l: "list_all2 (\<lambda>f r. simplify_item [] f = Inr r) fetched rs"
    by (rule traverse_Inr[OF rs])
  have "\<forall>r \<in> set rs. r \<noteq> None"
  proof
    fix r assume "r \<in> set rs"
    with l obtain f where "simplify_item [] f = Inr r" by (blast dest: list_all2_right)
    then show "r \<noteq> None" by (rule simplify_item_empty)
  qed
  then have "map Some items = rs" unfolding items by (rule map_filter_all_Some)
  with l have "list_all2 (\<lambda>f r. simplify_item [] f = Inr r) fetched (map Some items)"
    by simp
  then show ?thesis by (simp add: list_all2_map2)
qed

lemma work_items_body_success:
  assumes "work_items_body rt cfg ac w assigned_to iteration = (Inr resp, w')"
  shows "resp = JObj [(''work_items'', JArr []), (''count'', JInt 0)]
       \<or> (\<exists>w1 u hs details_response j work_items items.
             client_get rt w1 u hs = (Inr details_response, w')
           \<and> json_of details_response = Inr j
           \<and> py_item j ''value'' = Inr work_items
           \<and> simplified_items iteration work_items = Inr items
           \<and> resp = JObj [(''work_items'', JArr items),
                           (''count'', JInt (int (length items))),
                           (''filters'', JObj [(''assigned_to'', JStr assigned_to),
                                              (''iteration'', JStr iteration)])])"
  using assms
  by (auto simp: work_items_body_def Let_def andthen_Inr
           split: prod.splits sum.splits if_splits)


lemma handle_Inr: "handle rt r = Inr j \<longleftrightarrow> r = Inr j"
  by (cases r) (auto simp: handle_def split: exn.splits)

lemma get_work_items_Inr:
  assumes "get_work_items rt cfg w assigned_to iteration xo xp xb auth = (Inr resp, w')"
  shows "work_items_body rt cfg (get_azure_config_from_headers cfg xo xp xb auth) w
           assigned_to iteration = (Inr resp, w')"
  using assms
  by (auto simp: get_work_items_def Let_def handle_Inr split: prod.splits)

subsection \<open>The loop of \<open>/work-item-details\<close>\<close>

lemma split_acc_comma_length:
  "length (split_acc '','' cur s) = Suc (count_list s (CHR '',''))"
  by (induction s arbitrary: cur) auto

lemma str_split_comma_length:
  "length (str_split s '','') = Suc (count_list s (CHR '',''))"
  by (simp add: str_split_def split_acc_comma_length)

lemma split_acc_no_comma: "CHR '','' \<notin> set s \<Longrightarrow> split_acc '','' cur s = [cur @ s]"
  by (induction s arbitrary: cur) auto

lemma str_split_no_comma: "CHR '','' \<notin> set s \<Longrightarrow> str_split s '','' = [s]"
  by (simp add: str_split_def split_acc_no_comma)

lemma count_list_pos: "x \<in> set xs \<Longrightarrow> count_list xs x > 0"
  by (induction xs) auto

lemma fetch_all_length:
  "fetch_all rt cfg ac w ids = (entries, w') \<Longrightarrow> length entries = length ids"
  by (induction ids arbitrary: w entries w') (auto split: prod.splits)

lemma fetch_all_append:
  "fetch_all rt cfg ac w (xs @ ys) =
     (case fetch_all rt cfg ac w xs of
        (es1, w1) \<Rightarrow> (case fetch_all rt cfg ac w1 ys of (es2, w2) \<Rightarrow> (es1 @ es2, w2)))"
  by (induction xs arbitrary: w) (auto split: prod.splits)

lemma work_item_detail_shape:
  assumes "work_item_detail work_item wi_fields comments child_items = Inr d"
  shows "\<exists>id title description acceptance_criteria state work_item_type assigned_to created_by
           created_date changed_date iteration area priority story_points tags url.
      d = JObj
         [(''id'', id), (''title'', title), (''description'', description),
          (''acceptance_criteria'', acceptance_criteria), (''state'', state),
          (''work_item_type'', work_item_type), (''assigned_to'', assigned_to),
          (''created_by'', created_by), (''created_date'', created_date),
          (''changed_date'', changed_date), (''iteration'', iteration), (''area'', area),
          (''priority'', priority), (''story_points'', story_points), (''tags'', tags),
          (''comments'', JArr comments), (''child_work_items'', JArr child_items),
          (''child_count'', JInt (int (length child_items))), (''url'', url)]"
  using assms unfolding work_item_detail_def andthen_Inr
  by blast

lemma fetch_detail_Inr:
  assumes "fetch_detail rt cfg ac w single_id = (Inr d, w')"
  shows "\<exists>work_item wi_fields comments child_items.
           work_item_detail work_item wi_fields comments child_items = Inr d"
  using assms
  by (auto simp: fetch_detail_def Let_def split: prod.splits sum.splits)

lemma fetch_detail_keys:
  assumes "fetch_detail rt cfg ac w single_id = (Inr d, w')"
  shows "\<exists>kvs children. d = JObj kvs \<and> map fst kvs = detail_keys
           \<and> map_of kvs ''child_work_items'' = Some (JArr children)
           \<and> map_of kvs ''child_count'' = Some (JInt (int (length children)))"
proof -
  from fetch_detail_Inr[OF assms] obtain work_item wi_fields comments child_items where
    "work_item_detail work_item wi_fields comments child_items = Inr d" by blast
  from work_item_detail_shape[OF this] show ?thesis
    by (auto simp: detail_keys_def)
qed

lemma fetch_entry_cases:
  assumes "fetch_entry rt cfg ac w single_id = (entry, w')"
  shows "(\<exists>kvs children. entry = JObj kvs \<and> map fst kvs = detail_keys
           \<and> map_of kvs ''child_work_items'' = Some (JArr children)
           \<and> map_of kvs ''child_count'' = Some (JInt (int (length children))))
       \<or> (\<exists>e. entry = error_record rt single_id e)"
proof (cases "fst (fetch_detail rt cfg ac w single_id)")
  case (Inl e)
  with assms have "entry = error_record rt single_id e"
    by (auto simp: fetch_entry_def split: prod.splits sum.splits)
  then show ?thesis by blast
next
  case (Inr d)
  with assms have "fetch_detail rt cfg ac w single_id = (Inr entry, w')"
    by (auto simp: fetch_entry_def split: prod.splits sum.splits)
  from fetch_detail_keys[OF this] show ?thesis by blast
qed

lemma fetch_all_entries:
  "fetch_all rt cfg ac w ids = (entries, w') \<Longrightarrow>
     list_all2 (\<lambda>single_id entry. \<exists>w1 w2. fetch_entry rt cfg ac w1 single_id = (entry, w2))
       ids entries"
proof (induction ids arbitrary: w entries w')
  case Nil
  then show ?case by simp
next
  case (Cons single_id rest)
  obtain entry w1 where e: "fetch_entry rt cfg ac w single_id = (entry, w1)"
    by (cases "fetch_entry rt cfg ac w single_id")
  obtain es w2 where r: "fetch_all rt cfg ac w1 rest = (es, w2)"
    by (cases "fetch_all rt cfg ac w1 rest")
  from Cons.prems e r have "entries = entry # es" by simp
  with Cons.IH[OF r] e show ?case by auto
qed




lemma details_single:
  assumes "CHR '','' \<notin> set work_item_id"
    and "fetch_entry rt cfg (get_azure_config_from_headers cfg xo xp xb auth) w
           (strip work_item_id) = (entry, w')"
  shows "get_work_item_details rt cfg w work_item_id xo xp xb auth = (Inr entry, w')"
  using assms(2) by (simp add: get_work_item_details_def Let_def str_split_no_comma[OF assms(1)])

lemma details_several:
  assumes "CHR '','' \<in> set work_item_id"
    and "fetch_all rt cfg (get_azure_config_from_headers cfg xo xp xb auth) w
           (map strip (str_split work_item_id '','')) = (entries, w')"
  shows "get_work_item_details rt cfg w work_item_id xo xp xb auth =
            (Inr (JObj [(''work_items'', JArr entries),
                        (''count'', JInt (int (length entries)))]), w')"
    and "length entries = length (str_split work_item_id '','')"
    and "2 \<le> length entries"
proof -
  have n: "2 \<le> length (str_split work_item_id '','')"
    using count_list_pos[OF assms(1)] by (simp add: str_split_comma_length)
  from fetch_all_length[OF assms(2)]
  show l: "length entries = length (str_split work_item_id '','')" by simp
  with n show "2 \<le> length entries" by simp
  from n assms(2) show "get_work_item_details rt cfg w work_item_id xo xp xb auth =
            (Inr (JObj [(''work_items'', JArr entries),
                        (''count'', JInt (int (length entries)))]), w')"
    by (simp add: get_work_item_details_def Let_def)
qed

lemma fetch_all_failure:
  assumes "fetch_all rt cfg ac w before = (es1, w1)"
    and "fetch_detail rt cfg ac w1 single_id = (Inl e, w2)"
    and "fetch_all rt cfg ac w2 after = (es2, w3)"
  shows "fetch_all rt cfg ac w (before @ single_id # after) =
           (es1 @ error_record rt single_id e # es2, w3)"
  using assms by (simp add: fetch_all_append fetch_entry_def)

lemma fetch_detail_status_error:
  assumes "send rt w \<lparr> req_method = ''GET'',
                       req_url = base_url ac @ ''/'' @ azure_config.project ac @ ''/_apis/wit/workitems/''
                                 @ single_id @ ''?$expand=all&api-version=7.0'',
                       req_headers = get_auth_header cfg (Some (access_token ac)),
                       req_json = None \<rparr> = (Inr r, w')"
    and "\<not> (200 \<le> status_code r \<and> status_code r \<le> 299)"
  shows "fetch_detail rt cfg ac w single_id = (Inl (HTTPStatusError r), w')"
proof -
  have rs: "raise_for_status r = Inl (HTTPStatusError r)"
    using assms(2) by (auto simp: raise_for_status_def)
  show ?thesis
    using assms(1) by (simp add: fetch_detail_def Let_def client_get_def rs)
qed

lemma length_ge2_not1: "length (before @ single_id # after) = 1 \<longleftrightarrow> before = [] \<and> after = []"
  by (cases before; cases after) auto

lemma details_of_ids:
  assumes "map strip (str_split work_item_id '','') = ids"
    and "length ids \<noteq> 1"
    and "fetch_all rt cfg (get_azure_config_from_headers cfg xo xp xb auth) w ids
           = (entries, w')"
  shows "get_work_item_details rt cfg w work_item_id xo xp xb auth =
           (Inr (JObj [(''work_items'', JArr entries),
                       (''count'', JInt (int (length entries)))]), w')"
  using assms(2,3) by (simp add: get_work_item_details_def Let_def assms(1))

lemma entry_counted:
  assumes "fetch_entry rt cfg ac w single_id = (entry, w')"
    and "entry = JObj kvs" and "map fst kvs = detail_keys"
  shows "\<exists>children. py_item entry ''child_work_items'' = Inr (JArr children)
           \<and> py_item entry ''child_count'' = Inr (JInt (int (length children)))"
proof (rule disjE[OF fetch_entry_cases[OF assms(1)]])
  assume "\<exists>kvs children. entry = JObj kvs \<and> map fst kvs = detail_keys
           \<and> map_of kvs ''child_work_items'' = Some (JArr children)
           \<and> map_of kvs ''child_count'' = Some (JInt (int (length children)))"
  then obtain kvs' children where "entry = JObj kvs'"
    "map_of kvs' ''child_work_items'' = Some (JArr children)"
    "map_of kvs' ''child_count'' = Some (JInt (int (length children)))"
    by (elim exE conjE)
  then have "py_item entry ''child_work_items'' = Inr (JArr children)
           \<and> py_item entry ''child_count'' = Inr (JInt (int (length children)))"
    by simp
  then show ?thesis by (rule exI)
next
  assume "\<exists>e. entry = error_record rt single_id e"
  then obtain e where "entry = error_record rt single_id e" ..
  with assms(2) have "map fst kvs = [''id'', ''error'']" by (auto simp: error_record_def)
  with assms(3) show ?thesis by (simp add: detail_keys_def)
qed

lemma entries_counted:
  assumes "fetch_all rt cfg ac w ids = (entries, w')"
    and "entry \<in> set entries" and "entry = JObj kvs" and "map fst kvs = detail_keys"
  shows "\<exists>children. py_item entry ''child_work_items'' = Inr (JArr children)
           \<and> py_item entry ''child_count'' = Inr (JInt (int (length children)))"
proof -
  from list_all2_right[OF fetch_all_entries[OF assms(1)] assms(2)]
  obtain single_id w1 w2 where "fetch_entry rt cfg ac w1 single_id = (entry, w2)"
    by (elim bexE exE)
  from entry_counted[OF this assms(3,4)] show ?thesis .
qed

lemma my_iterations_body_success:
  assumes "my_iterations_body rt cfg ac w assigned_to = (Inr resp, w')"
  shows "\<exists>paths. resp = JObj [(''iterations'', JArr (map shape_iteration paths)),
                               (''count'', JInt (int (length paths)))]"
proof -
  have e: "JObj [(''iterations'', JArr []), (''count'', JInt 0)] =
           JObj [(''iterations'', JArr (map shape_iteration [])),
                 (''count'', JInt (int (length ([]::string list))))]"
    by simp
  show ?thesis
    using assms
    by (auto simp: my_iterations_body_def Let_def andthen_Inr
           split: prod.splits sum.splits if_splits intro: exI[of _ "[]"])
qed

lemma get_my_iterations_Inr:
  assumes "get_my_iterations rt cfg w assigned_to xo xp xb auth = (Inr resp, w')"
  shows "my_iterations_body rt cfg (get_azure_config_from_headers cfg xo xp xb auth) w
           assigned_to = (Inr resp, w')"
  using assms
  by (auto simp: get_my_iterations_def Let_def handle_Inr split: prod.splits)


lemma details_always_returns:
  "\<exists>resp w'. get_work_item_details rt cfg w work_item_id xo xp xb auth = (Inr resp, w')"
  by (simp add: get_work_item_details_def Let_def split: prod.split list.split)

subsection \<open>Splitting a text\<close>

lemma split_acc_absent:
  "\<not> str_contains sep s \<Longrightarrow> split_acc sep cur s = [cur @ s]"
  by (induction s arbitrary: cur) auto

lemma split_acc_nonempty: "split_acc sep cur s \<noteq> []"
  by (induction sep cur s rule: split_acc.induct) auto

lemma split_acc_last:
  assumes "sep \<noteq> []" and "str_contains sep s"
  shows "(\<exists>before. s = before @ sep @ last (split_acc sep cur s))
       \<and> \<not> str_contains sep (last (split_acc sep cur s))"
  using assms
proof (induction sep cur s rule: split_acc.induct)
  case (1 sep cur)
  then show ?case by simp
next
  case (2 sep cur c cs)
  show ?case
  proof (cases "prefix sep (c # cs)")
    case True
    let ?rest = "drop (length sep) (c # cs)"
    from True have s: "c # cs = sep @ ?rest" by (auto simp: prefix_def)
    have l: "last (split_acc sep cur (c # cs)) = last (split_acc sep [] ?rest)"
      using True 2(3) by (simp add: split_acc_nonempty)
    show ?thesis
    proof (cases "str_contains sep ?rest")
      case yes: True
      from "2.IH"(1)[OF _ 2(3) yes] True 2(3)
      obtain before where b: "?rest = before @ sep @ last (split_acc sep [] ?rest)"
        and n: "\<not> str_contains sep (last (split_acc sep [] ?rest))"
        by auto
      from s b have "c # cs = (sep @ before) @ sep @ last (split_acc sep [] ?rest)" by simp
      with n l show ?thesis by metis
    next
      case no: False
      then have "split_acc sep [] ?rest = [?rest]" by (simp add: split_acc_absent)
      with l have l2: "last (split_acc sep cur (c # cs)) = ?rest" by simp
      from s have "c # cs = [] @ sep @ ?rest" by simp
      with no l2 show ?thesis by metis
    qed
  next
    case False
    with 2(4) have c: "str_contains sep cs" by simp
    have l: "last (split_acc sep cur (c # cs)) = last (split_acc sep (cur @ [c]) cs)"
      using False by simp
    from "2.IH"(2)[OF _ 2(3) c] False
    obtain before where b: "cs = before @ sep @ last (split_acc sep (cur @ [c]) cs)"
      and n: "\<not> str_contains sep (last (split_acc sep (cur @ [c]) cs))"
      by auto
    from b have "c # cs = (c # before) @ sep @ last (split_acc sep (cur @ [c]) cs)" by simp
    with n l show ?thesis by metis
  qed
qed


lemma str_contains_append_left: "str_contains sep t \<Longrightarrow> str_contains sep (p @ t)"
  by (induction p) auto

lemma spec_after_last_append_left:
  "str_contains sep t \<Longrightarrow> spec_after_last sep (p @ t) = spec_after_last sep t"
  by (induction p) (auto simp: str_contains_append_left)

lemma border:
  "str_contains ''/workItems/'' (''workItems/'' @ rest) =
     (prefix ''workItems/'' rest \<or> str_contains ''/workItems/'' rest)"
  by (cases rest) simp_all

lemma split_acc_prefix_last:
  "sep \<noteq> [] \<Longrightarrow> prefix sep (c # cs) \<Longrightarrow>
     last (split_acc sep cur (c # cs)) = last (split_acc sep [] (drop (length sep) (c # cs)))"
  by (simp add: split_acc_nonempty)

lemma split_acc_noprefix_last:
  "\<not> prefix sep (c # cs) \<Longrightarrow>
     last (split_acc sep cur (c # cs)) = last (split_acc sep (cur @ [c]) cs)"
  by simp

lemma split_acc_rightmost:
  assumes "str_contains ''/workItems/'' s"
    and "\<not> prefix ''workItems/'' (last (split_acc ''/workItems/'' cur s))"
  shows "spec_after_last ''/workItems/'' s = last (split_acc ''/workItems/'' cur s)"
proof -
  define sep where "sep = ''/workItems/''"
  have ne: "sep \<noteq> []" by (simp add: sep_def)
  have "str_contains sep s \<Longrightarrow> \<not> prefix ''workItems/'' (last (split_acc sep cur s))
          \<Longrightarrow> spec_after_last sep s = last (split_acc sep cur s)"
  proof (induction "length s" arbitrary: s cur rule: less_induct)
    case less
    show ?case
    proof (cases s)
      case Nil
      with less.prems(1) ne show ?thesis by simp
    next
      case (Cons c cs)
      show ?thesis
      proof (cases "prefix sep (c # cs)")
        case True
        then obtain rest where s: "c # cs = sep @ rest" by (auto simp: prefix_def)
        have d: "drop (length sep) (c # cs) = rest" by (simp add: s)
        have l: "last (split_acc sep cur s) = last (split_acc sep [] rest)"
          unfolding Cons split_acc_prefix_last[OF ne True] d ..
        have cs: "cs = ''workItems/'' @ rest" using s by (simp add: sep_def)
        have len: "length rest < length s" unfolding Cons s by (simp add: sep_def)
        show ?thesis
        proof (cases "str_contains sep rest")
          case yes: True
          have "spec_after_last sep s = spec_after_last sep (sep @ rest)"
            unfolding Cons s ..
          also have "\<dots> = spec_after_last sep rest"
            using yes by (rule spec_after_last_append_left)
          also have "\<dots> = last (split_acc sep [] rest)"
            using less.hyps[OF len yes] less.prems(2) l by simp
          finally show ?thesis using l by simp
        next
          case no: False
          then have "split_acc sep [] rest = [rest]" by (simp add: split_acc_absent)
          with l have l2: "last (split_acc sep cur s) = rest" by simp
          with less.prems(2) have "\<not> prefix ''workItems/'' rest" by simp
          with no have "\<not> str_contains sep cs" unfolding cs sep_def border by simp
          then have "spec_after_last sep (c # cs) = drop (length sep) (c # cs)" by simp
          with d l2 Cons show ?thesis by simp
        qed
      next
        case False
        with less.prems(1) Cons have c: "str_contains sep cs" by simp
        have l: "last (split_acc sep cur s) = last (split_acc sep (cur @ [c]) cs)"
          unfolding Cons by (rule split_acc_noprefix_last[OF False])
        have len: "length cs < length s" by (simp add: Cons)
        from c have "spec_after_last sep s = spec_after_last sep cs" by (simp add: Cons)
        also have "\<dots> = last (split_acc sep (cur @ [c]) cs)"
          using less.hyps[OF len c] less.prems(2) l by simp
        finally show ?thesis using l by simp
      qed
    qed
  qed
  with assms show ?thesis by (simp add: sep_def)
qed

subsection \<open>Child ids\<close>

lemma child_id_of_Some:
  assumes "child_id_of relation = Inr (Some child_id)"
  shows "\<exists>url. py_get relation ''rel'' JNull = Inr (JStr hierarchy_forward)
             \<and> py_get relation ''url'' (JStr []) = Inr (JStr url)
             \<and> str_contains work_items_sep url
             \<and> child_id = last (str_split url work_items_sep)"
proof -
  from assms obtain rel where r: "py_get relation ''rel'' JNull = Inr rel"
    and 1: "(if rel = JStr hierarchy_forward then
       andthen (py_get relation ''url'' (JStr [])) (\<lambda>child_url.
       andthen (py_in work_items_sep child_url) (\<lambda>found.
       if found then
         andthen (py_split child_url work_items_sep) (\<lambda>pieces. Inr (Some (last pieces)))
       else Inr None))
     else Inr None) = Inr (Some child_id)"
    by (auto simp: child_id_of_def andthen_Inr)
  from 1 have f: "rel = JStr hierarchy_forward" by (auto split: if_splits)
  with 1 obtain child_url found where u: "py_get relation ''url'' (JStr []) = Inr child_url"
    and i: "py_in work_items_sep child_url = Inr found"
    and 2: "(if found then
         andthen (py_split child_url work_items_sep) (\<lambda>pieces. Inr (Some (last pieces)))
       else Inr None) = Inr (Some child_id)"
    by (auto simp: andthen_Inr)
  from 2 have fo: "found" by (auto split: if_splits)
  with 2 obtain pieces where p: "py_split child_url work_items_sep = Inr pieces"
    and c: "child_id = last pieces"
    by (auto simp: andthen_Inr)
  from p obtain url where url: "child_url = JStr url" and pieces: "pieces = str_split url work_items_sep"
    by (auto simp: py_split_def split: json.splits)
  from i fo url have "str_contains work_items_sep url" by simp
  with r f u url c pieces show ?thesis by blast
qed

lemma child_ids_of_member:
  assumes "child_ids_of work_item = Inr ids" and "child_id \<in> set ids"
  shows "\<exists>relations rs relation.
           py_get work_item ''relations'' (JArr []) = Inr relations
         \<and> py_iter relations = Inr rs \<and> relation \<in> set rs
         \<and> child_id_of relation = Inr (Some child_id)"
proof -
  from assms(1) obtain relations rs xs where
    r: "py_get work_item ''relations'' (JArr []) = Inr relations"
    and i: "py_iter relations = Inr rs"
    and t: "traverse child_id_of rs = Inr xs"
    and ids: "ids = List.map_filter (\<lambda>r. r) xs"
    by (auto simp: child_ids_of_def andthen_Inr)
  from assms(2) ids have "Some child_id \<in> set xs" by (simp add: set_map_filter_id)
  from list_all2_right[OF traverse_Inr[OF t] this]
  obtain relation where "relation \<in> set rs" "child_id_of relation = Inr (Some child_id)"
    by blast
  with r i show ?thesis by blast
qed

lemma fetch_children_none: "fetch_children rt cfg ac w [] = (Inr [], w)"
  by (simp add: fetch_children_def)

lemma fetch_detail_children:
  assumes "fetch_detail rt cfg ac w single_id = (Inr d, w')"
  shows "\<exists>work_item ids children w2.
           (\<exists>u hs response w1. client_get rt w u hs = (Inr response, w1)
                              \<and> json_of response = Inr work_item)
         \<and> child_ids_of work_item = Inr ids
         \<and> fetch_children rt cfg ac w2 ids = (Inr children, w')
         \<and> py_item d ''child_work_items'' = Inr (JArr children)"
proof -
  from assms obtain response w1 work_item wi_fields comments ids w2 children where
    1: "client_get rt w (base_url ac @ ''/'' @ azure_config.project ac
            @ ''/_apis/wit/workitems/'' @ single_id @ ''?$expand=all&api-version=7.0'')
          (get_auth_header cfg (Some (access_token ac))) = (Inr response, w1)"
    and 2: "json_of response = Inr work_item"
    and 3: "child_ids_of work_item = Inr ids"
    and 4: "fetch_children rt cfg ac w2 ids = (Inr children, w')"
    and 5: "work_item_detail work_item wi_fields comments children = Inr d"
    by (auto simp: fetch_detail_def Let_def andthen_Inr split: prod.splits sum.splits)
  from work_item_detail_shape[OF 5]
  have 6: "py_item d ''child_work_items'' = Inr (JArr children)" by auto
  from 1 2 have "\<exists>u hs response w1. client_get rt w u hs = (Inr response, w1)
                              \<and> json_of response = Inr work_item"
    by blast
  with 3 4 6 show ?thesis by blast
qed


lemma forward_child_id:
  assumes "child_id_of relation = Inr (Some child_id)"
  shows "\<exists>url.
            py_get relation ''rel'' JNull = Inr (JStr ''System.LinkTypes.Hierarchy-Forward'')
          \<and> py_get relation ''url'' (JStr []) = Inr (JStr url)
          \<and> child_id = last (str_split url ''/workItems/'')
          \<and> (\<exists>before. url = before @ ''/workItems/'' @ child_id)
          \<and> \<not> str_contains ''/workItems/'' child_id
          \<and> (\<not> prefix ''workItems/'' child_id \<longrightarrow>
                child_id = spec_after_last ''/workItems/'' url)"
proof -
  from child_id_of_Some[OF assms] obtain url where
    r: "py_get relation ''rel'' JNull = Inr (JStr ''System.LinkTypes.Hierarchy-Forward'')"
    and u: "py_get relation ''url'' (JStr []) = Inr (JStr url)"
    and c: "str_contains ''/workItems/'' url"
    and i: "child_id = last (split_acc ''/workItems/'' [] url)"
    unfolding hierarchy_forward_def work_items_sep_def str_split_def by blast
  have ne: "''/workItems/'' \<noteq> []" by simp
  from split_acc_last[OF ne c, of "[]"] i
  have b: "\<exists>before. url = before @ ''/workItems/'' @ child_id"
    and n: "\<not> str_contains ''/workItems/'' child_id"
    by simp_all
  have m: "\<not> prefix ''workItems/'' child_id \<longrightarrow>
                child_id = spec_after_last ''/workItems/'' url"
    using split_acc_rightmost[OF c, of "[]"] i by simp
  from i have i': "child_id = last (str_split url ''/workItems/'')"
    by (simp add: str_split_def)
  show ?thesis
    by (rule exI[of _ url], intro conjI) (rule r, rule u, rule i', rule b, rule n, rule m)
qed

subsection \<open>\<open>/test-connection\<close>: failures of the upstream\<close>

text \<open>
  Claim C6. When the upstream answers the probe with a status outside 200 to 299:
  a 400 whose body contains \<open>size limit\<close> gives \<open>{status: "success", ...}\<close>; a 401
  raises a 400 error whose detail lists the three hints on the personal access token;
  a 404 raises a 400 error with the not-found message; any other status raises a 400
  error with the generic message carrying the upstream body.
\<close>

theorem test_connection_maps_failures:
  assumes "send rt w (test_request cfg settings) = (Inr r, w')"
    and "\<not> (200 \<le> status_code r \<and> status_code r \<le> 299)"
  shows "(status_code r = 400 \<and> str_contains ''size limit'' (resp_text r) \<longrightarrow>
            test_connection rt cfg w settings =
              (Inr (JObj [(''status'', JStr ''success''),
                          (''message'', JStr ''Connection successful (large dataset detected)'')]),
               w'))
       \<and> (status_code r = 401 \<longrightarrow>
            test_connection rt cfg w settings = (Inl (HTTPException 400 error_details), w'))
       \<and> (status_code r = 404 \<longrightarrow>
            test_connection rt cfg w settings = (Inl (HTTPException 400 not_found_detail), w'))
       \<and> (status_code r \<noteq> 401 \<and> status_code r \<noteq> 404
            \<and> \<not> (status_code r = 400 \<and> str_contains ''size limit'' (resp_text r)) \<longrightarrow>
            test_connection rt cfg w settings =
              (Inl (HTTPException 400 (''Azure DevOps API error: '' @ resp_text r)), w'))
       \<and> str_contains ''1. Your PAT is not expired'' error_details
       \<and> str_contains (''2. Your PAT has '' @ quote # ''Project and Team (read)'' @ quote
                         # '' permissions'') error_details
       \<and> str_contains ''3. You have access to the organization and project'' error_details
       \<and> str_contains ''not found'' not_found_detail"
proof -
  have q: "\<lparr>req_method = ''POST'', req_url = req_url (test_request cfg settings),
            req_headers = req_headers (test_request cfg settings), req_json = Some test_query\<rparr>
           = test_request cfg settings"
    by (simp add: test_request_def Let_def)
  have rs: "raise_for_status r = Inl (HTTPStatusError r)"
    using assms(2) by (auto simp: raise_for_status_def)
  have tc: "test_connection rt cfg w settings = (status_error r, w')"
    using assms(1) by (simp add: test_connection_def Let_def client_post_def q rs)
  have h1: "str_contains ''1. Your PAT is not expired'' error_details" by code_simp
  have h2: "str_contains (''2. Your PAT has '' @ quote # ''Project and Team (read)'' @ quote
                            # '' permissions'') error_details"
    by code_simp
  have h3: "str_contains ''3. You have access to the organization and project'' error_details" by code_simp
  have h4: "str_contains ''not found'' not_found_detail" by code_simp
  show ?thesis unfolding tc using h1 h2 h3 h4
    by (simp add: status_error_def)
qed


theorem test_connection_maps_failures_witness:
  "test_connection
     (serve (\<lambda>q. Inr \<lparr> status_code = 400, resp_text = ''the query exceeds the size limit'',
                         resp_json = None \<rparr>))
     example_config ()
     example_settings
   = (Inr (JObj [(''status'', JStr ''success''),
                 (''message'', JStr ''Connection successful (large dataset detected)'')]), ())
   \<and> test_connection
     (serve (\<lambda>q. Inr \<lparr> status_code = 401, resp_text = ''denied'', resp_json = None \<rparr>))
     example_config ()
     example_settings
   = (Inl (HTTPException 400 error_details), ())
   \<and> test_connection
     (serve (\<lambda>q. Inr \<lparr> status_code = 404, resp_text = ''no such project'', resp_json = None \<rparr>))
     example_config ()
     example_settings
   = (Inl (HTTPException 400 not_found_detail), ())
   \<and> test_connection
     (serve (\<lambda>q. Inr \<lparr> status_code = 503, resp_text = ''unavailable'', resp_json = None \<rparr>))
     example_config ()
     example_settings
   = (Inl (HTTPException 400 ''Azure DevOps API error: unavailable''), ())"
proof -
  have c: "str_contains ''size limit'' ''the query exceeds the size limit''" by code_simp
  show ?thesis
    using
      test_connection_maps_failures[of
        "serve (\<lambda>q. Inr \<lparr> status_code = 400, resp_text = ''the query exceeds the size limit'',
                            resp_json = None \<rparr>)"
        "()" example_config
        example_settings
        "\<lparr> status_code = 400, resp_text = ''the query exceeds the size limit'',
           resp_json = None \<rparr>" "()"]
      test_connection_maps_failures[of
        "serve (\<lambda>q. Inr \<lparr> status_code = 401, resp_text = ''denied'', resp_json = None \<rparr>)"
        "()" example_config
        example_settings
        "\<lparr> status_code = 401, resp_text = ''denied'', resp_json = None \<rparr>" "()"]
      test_connection_maps_failures[of
        "serve (\<lambda>q. Inr \<lparr> status_code = 404, resp_text = ''no such project'',
                            resp_json = None \<rparr>)"
        "()" example_config
        example_settings
        "\<lparr> status_code = 404, resp_text = ''no such project'', resp_json = None \<rparr>" "()"]
      test_connection_maps_failures[of
        "serve (\<lambda>q. Inr \<lparr> status_code = 503, resp_text = ''unavailable'', resp_json = None \<rparr>)"
        "()" example_config
        example_settings
        "\<lparr> status_code = 503, resp_text = ''unavailable'', resp_json = None \<rparr>" "()"]
      c
    by (simp add: serve_def)
qed

subsection \<open>The query posted upstream\<close>

lemma client_post_recording:
  "client_post (recording rt) (w, sent) u body hs =
     (case client_post rt w u body hs of
        (r, w') \<Rightarrow> (r, (w', sent @ [\<lparr> req_method = ''POST'', req_url = u, req_headers = hs,
                                        req_json = Some body \<rparr>])))"
  by (simp add: client_post_def recording_def split: prod.split sum.split)

lemma client_get_recording:
  "client_get (recording rt) (w, sent) u hs =
     (case client_get rt w u hs of
        (r, w') \<Rightarrow> (r, (w', sent @ [\<lparr> req_method = ''GET'', req_url = u, req_headers = hs,
                                        req_json = None \<rparr>])))"
  by (simp add: client_get_def recording_def split: prod.split sum.split)

lemma work_items_body_sent:
  "\<exists>first rest. snd (snd (work_items_body (recording rt) cfg ac (w, []) assigned_to iteration))
       = first # rest
     \<and> req_method first = ''POST''
     \<and> req_json first = Some (JObj [(''query'', JStr (work_items_query assigned_to))])
     \<and> (\<forall>q \<in> set rest. req_method q = ''GET'')"
  by (auto simp: work_items_body_def Let_def client_post_recording client_get_recording
           split: prod.split sum.split)

lemma my_iterations_body_sent:
  "\<exists>first rest. snd (snd (my_iterations_body (recording rt) cfg ac (w, []) assigned_to))
       = first # rest
     \<and> req_method first = ''POST''
     \<and> req_json first = Some (JObj [(''query'', JStr (my_iterations_query assigned_to))])
     \<and> (\<forall>q \<in> set rest. req_method q = ''GET'')"
  by (auto simp: my_iterations_body_def Let_def client_post_recording client_get_recording
           split: prod.split sum.split)


lemma get_work_items_snd:
  "snd (get_work_items rt cfg w assigned_to iteration xo xp xb auth) =
   snd (work_items_body rt cfg (get_azure_config_from_headers cfg xo xp xb auth) w
          assigned_to iteration)"
  by (simp add: get_work_items_def Let_def split: prod.split)

lemma get_my_iterations_snd:
  "snd (get_my_iterations rt cfg w assigned_to xo xp xb auth) =
   snd (my_iterations_body rt cfg (get_azure_config_from_headers cfg xo xp xb auth) w
          assigned_to)"
  by (simp add: get_my_iterations_def Let_def split: prod.split)

text \<open>
  Claim C3. Whatever the iteration parameter and whatever the upstream answers, the
  first request \<open>/work-items\<close> sends is the only POST, and its query text is the
  fixed \<open>SELECT\<close> whose \<open>WHERE\<close> clause is \<open>[System.AssignedTo] = '<assigned_to>'\<close> and
  nothing else: the iteration does not occur in it. The same holds for the query of
  \<open>/my-iterations\<close>. The requests sent are read from a runtime that records them.
\<close>

theorem wiql_never_filters_by_iteration:
  "(\<exists>first rest.
      snd (snd (get_work_items (recording rt) cfg (w, []) assigned_to iteration xo xp xb auth))
        = first # rest
      \<and> req_method first = ''POST''
      \<and> req_json first = Some (JObj [(''query'', JStr (
            ''\<newline>        SELECT [System.Id], [System.Title], [System.State], [System.AssignedTo], [System.IterationPath], [System.WorkItemType]\<newline>        FROM WorkItems \<newline>        WHERE [System.AssignedTo] = ''
            @ quote # assigned_to @ quote # ''\<newline>        ''))])
      \<and> (\<forall>q \<in> set rest. req_method q = ''GET''))
   \<and> (\<exists>first rest.
      snd (snd (get_my_iterations (recording rt) cfg (w, []) assigned_to xo xp xb auth))
        = first # rest
      \<and> req_method first = ''POST''
      \<and> req_json first = Some (JObj [(''query'', JStr (
            ''\<newline>        SELECT [System.Id], [System.IterationPath]\<newline>        FROM WorkItems \<newline>        WHERE [System.AssignedTo] = ''
            @ quote # assigned_to @ quote # ''\<newline>        ''))])
      \<and> (\<forall>q \<in> set rest. req_method q = ''GET''))"
proof -
  have a: "work_items_query assigned_to =
      ''\<newline>        SELECT [System.Id], [System.Title], [System.State], [System.AssignedTo], [System.IterationPath], [System.WorkItemType]\<newline>        FROM WorkItems \<newline>        WHERE [System.AssignedTo] = ''
      @ quote # assigned_to @ quote # ''\<newline>        ''"
    by (simp add: work_items_query_def newline_def)
  have b: "my_iterations_query assigned_to =
      ''\<newline>        SELECT [System.Id], [System.IterationPath]\<newline>        FROM WorkItems \<newline>        WHERE [System.AssignedTo] = ''
      @ quote # assigned_to @ quote # ''\<newline>        ''"
    by (simp add: my_iterations_query_def newline_def)
  show ?thesis
    unfolding get_work_items_snd get_my_iterations_snd
    using work_items_body_sent[of rt cfg _ w assigned_to iteration, unfolded a]
      my_iterations_body_sent[of rt cfg _ w assigned_to, unfolded b]
    by (rule conjI)
qed


lemma example_work_items_sent:
  "length (snd (snd (get_work_items (recording (serve example_upstream)) example_config ((), [])
       ''ann@example.com'' ''Sprint 1'' None None None None))) = 2"
  by code_simp


lemma example_my_iterations_sent:
  "length (snd (snd (get_my_iterations (recording (serve example_upstream)) example_config ((), [])
       ''ann@example.com'' None None None None))) = 2"
  by code_simp

theorem wiql_never_filters_by_iteration_witness:
  "(\<exists>first rest.
      snd (snd (get_work_items (recording (serve example_upstream)) example_config ((), [])
                  ''ann@example.com'' ''Sprint 1'' None None None None))
        = first # rest
      \<and> length rest = 1
      \<and> req_method first = ''POST''
      \<and> req_json first = Some (JObj [(''query'', JStr (
            ''\<newline>        SELECT [System.Id], [System.Title], [System.State], [System.AssignedTo], [System.IterationPath], [System.WorkItemType]\<newline>        FROM WorkItems \<newline>        WHERE [System.AssignedTo] = ''
            @ quote # ''ann@example.com'' @ quote # ''\<newline>        ''))])
      \<and> (\<forall>q \<in> set rest. req_method q = ''GET''))
   \<and> (\<exists>first rest.
      snd (snd (get_my_iterations (recording (serve example_upstream)) example_config ((), [])
                  ''ann@example.com'' None None None None))
        = first # rest
      \<and> length rest = 1
      \<and> req_method first = ''POST''
      \<and> req_json first = Some (JObj [(''query'', JStr (
            ''\<newline>        SELECT [System.Id], [System.IterationPath]\<newline>        FROM WorkItems \<newline>        WHERE [System.AssignedTo] = ''
            @ quote # ''ann@example.com'' @ quote # ''\<newline>        ''))])
      \<and> (\<forall>q \<in> set rest. req_method q = ''GET''))"
proof -
  note t = wiql_never_filters_by_iteration[of "serve example_upstream" example_config "()"
      "''ann@example.com''" "''Sprint 1''" None None None None]
  from t obtain f1 r1 where 1:
    "snd (snd (get_work_items (recording (serve example_upstream)) example_config ((), [])
                  ''ann@example.com'' ''Sprint 1'' None None None None)) = f1 # r1"
    "req_method f1 = ''POST''"
    "req_json f1 = Some (JObj [(''query'', JStr (
            ''\<newline>        SELECT [System.Id], [System.Title], [System.State], [System.AssignedTo], [System.IterationPath], [System.WorkItemType]\<newline>        FROM WorkItems \<newline>        WHERE [System.AssignedTo] = ''
            @ quote # ''ann@example.com'' @ quote # ''\<newline>        ''))])"
    "\<forall>q \<in> set r1. req_method q = ''GET''"
    by blast
  from t obtain f2 r2 where 2:
    "snd (snd (get_my_iterations (recording (serve example_upstream)) example_config ((), [])
                  ''ann@example.com'' None None None None)) = f2 # r2"
    "req_method f2 = ''POST''"
    "req_json f2 = Some (JObj [(''query'', JStr (
            ''\<newline>        SELECT [System.Id], [System.IterationPath]\<newline>        FROM WorkItems \<newline>        WHERE [System.AssignedTo] = ''
            @ quote # ''ann@example.com'' @ quote # ''\<newline>        ''))])"
    "\<forall>q \<in> set r2. req_method q = ''GET''"
    by blast
  from 1(1) example_work_items_sent have l1: "length r1 = 1" by simp
  from 2(1) example_my_iterations_sent have l2: "length r2 = 1" by simp
  from 1 l1 have A: "\<exists>first rest.
      snd (snd (get_work_items (recording (serve example_upstream)) example_config ((), [])
                  ''ann@example.com'' ''Sprint 1'' None None None None))
        = first # rest
      \<and> length rest = 1
      \<and> req_method first = ''POST''
      \<and> req_json first = Some (JObj [(''query'', JStr (
            ''\<newline>        SELECT [System.Id], [System.Title], [System.State], [System.AssignedTo], [System.IterationPath], [System.WorkItemType]\<newline>        FROM WorkItems \<newline>        WHERE [System.AssignedTo] = ''
            @ quote # ''ann@example.com'' @ quote # ''\<newline>        ''))])
      \<and> (\<forall>q \<in> set rest. req_method q = ''GET'')"
    by blast
  from 2 l2 have B: "\<exists>first rest.
      snd (snd (get_my_iterations (recording (serve example_upstream)) example_config ((), [])
                  ''ann@example.com'' None None None None))
        = first # rest
      \<and> length rest = 1
      \<and> req_method first = ''POST''
      \<and> req_json first = Some (JObj [(''query'', JStr (
            ''\<newline>        SELECT [System.Id], [System.IterationPath]\<newline>        FROM WorkItems \<newline>        WHERE [System.AssignedTo] = ''
            @ quote # ''ann@example.com'' @ quote # ''\<newline>        ''))])
      \<and> (\<forall>q \<in> set rest. req_method q = ''GET'')"
    by blast
  from A B show ?thesis by (rule conjI)
qed

subsection \<open>\<open>/work-items\<close>: the iteration filter\<close>

lemma work_items_body_fetch:
  assumes "work_items_body rt cfg ac w assigned_to iteration = (Inr resp, w')"
  shows "\<exists>response w1 ids.
      client_post rt w
        (base_url ac @ ''/'' @ azure_config.project ac @ ''/_apis/wit/wiql?api-version=7.0'')
        (JObj [(''query'', JStr (work_items_query assigned_to))])
        (get_auth_header cfg (Some (access_token ac))
         @ [(''Content-Type'', ''application/json'')]) = (Inr response, w1)
    \<and> work_item_ids_of response = Inr ids
    \<and> (ids = [] \<longrightarrow>
          resp = JObj [(''work_items'', JArr []), (''count'', JInt 0)] \<and> w' = w1)
    \<and> (ids \<noteq> [] \<longrightarrow>
         (\<exists>details_response j work_items items.
             client_get rt w1
               (base_url ac @ ''/'' @ azure_config.project ac @ ''/_apis/wit/workitems?ids=''
                @ join '','' (map (str_json rt) ids) @ ''&api-version=7.0'')
               (get_auth_header cfg (Some (access_token ac))) = (Inr details_response, w')
           \<and> json_of details_response = Inr j
           \<and> py_item j ''value'' = Inr work_items
           \<and> simplified_items iteration work_items = Inr items
           \<and> resp = JObj [(''work_items'', JArr items),
                           (''count'', JInt (int (length items))),
                           (''filters'', JObj [(''assigned_to'', JStr assigned_to),
                                              (''iteration'', JStr iteration)])]))"
  using assms
  by (auto simp: work_items_body_def Let_def andthen_Inr
           split: prod.splits sum.splits if_splits)


lemma simplified_items_unfiltered_fields:
  assumes "simplified_items [] work_items = Inr items"
    and "py_iter work_items = Inr fetched"
  shows "list_all2 (\<lambda>f it. simplify_item [] f = Inr (Some it)
                          \<and> py_item it ''id'' = py_item f ''id''
                          \<and> py_item it ''url'' = py_item f ''url'')
           fetched items"
proof (rule list_all2_mono[OF simplified_items_unfiltered[OF assms]])
  fix f it
  assume a: "simplify_item [] f = Inr (Some it)"
  from simplify_item_Some[OF a] have "py_item it ''id'' = py_item f ''id''"
    "py_item it ''url'' = py_item f ''url''"
    by blast+
  with a show "simplify_item [] f = Inr (Some it)
                          \<and> py_item it ''id'' = py_item f ''id''
                          \<and> py_item it ''url'' = py_item f ''url''"
    by (intro conjI)
qed

text \<open>
  Claim C7. A successful \<open>/work-items\<close> response comes from these two exchanges: the
  query is posted, and its answer gives the ids; when there is an id, the details of
  those ids are requested, and \<open>fetched\<close> is the list of items in the answer. With a
  non-empty iteration parameter every item of \<open>work_items\<close> is the shape of a fetched
  item whose \<open>System.IterationPath\<close> contains the iteration (Python's \<open>in\<close>; on a
  text path the iteration is a substring of it), and that path is its \<open>iteration\<close>
  field. With an empty iteration parameter nothing is filtered: \<open>work_items\<close> has as
  many items as were fetched and holds, in order, the shape of every fetched item,
  with its \<open>id\<close> and \<open>url\<close>.
\<close>

theorem work_items_iteration_filter:
  assumes "get_work_items rt cfg w assigned_to iteration xo xp xb auth = (Inr resp, w')"
  shows "\<exists>response w1 ids.
      client_post rt w
        (base_url (get_azure_config_from_headers cfg xo xp xb auth) @ ''/'' @ azure_config.project (get_azure_config_from_headers cfg xo xp xb auth)
         @ ''/_apis/wit/wiql?api-version=7.0'')
        (JObj [(''query'', JStr (work_items_query assigned_to))])
        (get_auth_header cfg (Some (access_token (get_azure_config_from_headers cfg xo xp xb auth)))
         @ [(''Content-Type'', ''application/json'')]) = (Inr response, w1)
    \<and> work_item_ids_of response = Inr ids
    \<and> (ids = [] \<longrightarrow> py_item resp ''work_items'' = Inr (JArr []))
    \<and> (ids \<noteq> [] \<longrightarrow>
         (\<exists>details_response j v fetched items.
             client_get rt w1
               (base_url (get_azure_config_from_headers cfg xo xp xb auth) @ ''/'' @ azure_config.project (get_azure_config_from_headers cfg xo xp xb auth)
                @ ''/_apis/wit/workitems?ids='' @ join '','' (map (str_json rt) ids)
                @ ''&api-version=7.0'')
               (get_auth_header cfg (Some (access_token (get_azure_config_from_headers cfg xo xp xb auth)))) = (Inr details_response, w')
           \<and> json_of details_response = Inr j
           \<and> py_item j ''value'' = Inr v
           \<and> py_iter v = Inr fetched
           \<and> py_item resp ''work_items'' = Inr (JArr items)
           \<and> (iteration \<noteq> [] \<longrightarrow>
                (\<forall>it \<in> set items. \<exists>f \<in> set fetched. \<exists>fields path.
                    simplify_item iteration f = Inr (Some it)
                  \<and> py_item f ''fields'' = Inr fields
                  \<and> py_get fields ''System.IterationPath'' (JStr []) = Inr path
                  \<and> py_item it ''iteration'' = Inr path
                  \<and> py_in iteration path = Inr True
                  \<and> (\<forall>s. path = JStr s \<longrightarrow>
                        (\<exists>before after. s = before @ iteration @ after))))
           \<and> (iteration = [] \<longrightarrow>
                length items = length fetched
              \<and> list_all2 (\<lambda>f it. simplify_item iteration f = Inr (Some it)
                                  \<and> py_item it ''id'' = py_item f ''id''
                                  \<and> py_item it ''url'' = py_item f ''url'')
                    fetched items)))"
proof -
  let ?ac = "get_azure_config_from_headers cfg xo xp xb auth"
  from work_items_body_fetch[OF get_work_items_Inr[OF assms]]
  obtain response w1 ids where
    post: "client_post rt w
        (base_url ?ac @ ''/'' @ azure_config.project ?ac
         @ ''/_apis/wit/wiql?api-version=7.0'')
        (JObj [(''query'', JStr (work_items_query assigned_to))])
        (get_auth_header cfg (Some (access_token ?ac))
         @ [(''Content-Type'', ''application/json'')]) = (Inr response, w1)"
    and ids: "work_item_ids_of response = Inr ids"
    and none: "ids = [] \<longrightarrow>
          resp = JObj [(''work_items'', JArr []), (''count'', JInt 0)] \<and> w' = w1"
    and some: "ids \<noteq> [] \<longrightarrow>
         (\<exists>details_response j work_items items.
             client_get rt w1
               (base_url ?ac @ ''/'' @ azure_config.project ?ac
                @ ''/_apis/wit/workitems?ids='' @ join '','' (map (str_json rt) ids)
                @ ''&api-version=7.0'')
               (get_auth_header cfg (Some (access_token ?ac))) = (Inr details_response, w')
           \<and> json_of details_response = Inr j
           \<and> py_item j ''value'' = Inr work_items
           \<and> simplified_items iteration work_items = Inr items
           \<and> resp = JObj [(''work_items'', JArr items),
                           (''count'', JInt (int (length items))),
                           (''filters'', JObj [(''assigned_to'', JStr assigned_to),
                                              (''iteration'', JStr iteration)])])"
    by (elim exE conjE)
  have A: "ids = [] \<longrightarrow> py_item resp ''work_items'' = Inr (JArr [])"
    using none by simp
  have B: "\<exists>details_response j v fetched items.
             client_get rt w1
               (base_url ?ac @ ''/'' @ azure_config.project ?ac
                @ ''/_apis/wit/workitems?ids='' @ join '','' (map (str_json rt) ids)
                @ ''&api-version=7.0'')
               (get_auth_header cfg (Some (access_token ?ac))) = (Inr details_response, w')
           \<and> json_of details_response = Inr j
           \<and> py_item j ''value'' = Inr v
           \<and> py_iter v = Inr fetched
           \<and> py_item resp ''work_items'' = Inr (JArr items)
           \<and> (iteration \<noteq> [] \<longrightarrow>
                (\<forall>it \<in> set items. \<exists>f \<in> set fetched. \<exists>fields path.
                    simplify_item iteration f = Inr (Some it)
                  \<and> py_item f ''fields'' = Inr fields
                  \<and> py_get fields ''System.IterationPath'' (JStr []) = Inr path
                  \<and> py_item it ''iteration'' = Inr path
                  \<and> py_in iteration path = Inr True
                  \<and> (\<forall>s. path = JStr s \<longrightarrow>
                        (\<exists>before after. s = before @ iteration @ after))))
           \<and> (iteration = [] \<longrightarrow>
                length items = length fetched
              \<and> list_all2 (\<lambda>f it. simplify_item iteration f = Inr (Some it)
                                  \<and> py_item it ''id'' = py_item f ''id''
                                  \<and> py_item it ''url'' = py_item f ''url'')
                    fetched items)"
    if ne: "ids \<noteq> []"
  proof -
    from some ne obtain details_response j work_items items where
      get: "client_get rt w1
               (base_url ?ac @ ''/'' @ azure_config.project ?ac
                @ ''/_apis/wit/workitems?ids='' @ join '','' (map (str_json rt) ids)
                @ ''&api-version=7.0'')
               (get_auth_header cfg (Some (access_token ?ac))) = (Inr details_response, w')"
      and j: "json_of details_response = Inr j"
      and v: "py_item j ''value'' = Inr work_items"
      and si: "simplified_items iteration work_items = Inr items"
      and resp: "resp = JObj [(''work_items'', JArr items),
                           (''count'', JInt (int (length items))),
                           (''filters'', JObj [(''assigned_to'', JStr assigned_to),
                                              (''iteration'', JStr iteration)])]"
      by blast
    from si obtain fetched where it: "py_iter work_items = Inr fetched"
      by (auto simp: simplified_items_def andthen_Inr)
    have 1: "py_item resp ''work_items'' = Inr (JArr items)" by (simp add: resp)
    have 3: "\<exists>f \<in> set fetched. \<exists>fields path.
             simplify_item iteration f = Inr (Some it)
           \<and> py_item f ''fields'' = Inr fields
           \<and> py_get fields ''System.IterationPath'' (JStr []) = Inr path
           \<and> py_item it ''iteration'' = Inr path
           \<and> py_in iteration path = Inr True
           \<and> (\<forall>s. path = JStr s \<longrightarrow> (\<exists>before after. s = before @ iteration @ after))"
      if "iteration \<noteq> []" "it \<in> set items" for it
    proof -
      from simplified_items_filtered[OF si it that(2)] obtain f where
        f: "f \<in> set fetched" "simplify_item iteration f = Inr (Some it)" by blast
      from simplify_item_Some[OF f(2)] that(1) obtain fields path where
        p: "py_item f ''fields'' = Inr fields"
          "py_get fields ''System.IterationPath'' (JStr []) = Inr path"
          "py_in iteration path = Inr True"
          "py_item it ''iteration'' = Inr path"
        by blast
      from p(3) have q:
        "\<forall>s. path = JStr s \<longrightarrow> (\<exists>before after. s = before @ iteration @ after)"
        by (auto simp: str_contains_iff)
      show ?thesis
        by (rule bexI[OF _ f(1)], rule exI[of _ fields], rule exI[of _ path])
           (simp add: f p q)
    qed
    have 4: "list_all2 (\<lambda>f it. simplify_item iteration f = Inr (Some it)
                                  \<and> py_item it ''id'' = py_item f ''id''
                                  \<and> py_item it ''url'' = py_item f ''url'')
                    fetched items"
      if "iteration = []"
      using simplified_items_unfiltered_fields[OF _ it, of items] si that by simp
    have 5: "length items = length fetched" if "iteration = []"
      using list_all2_lengthD[OF 4[OF that]] by simp
    show ?thesis
      apply (rule exI[of _ details_response], rule exI[of _ j], rule exI[of _ work_items],
             rule exI[of _ fetched], rule exI[of _ items])
      apply (intro conjI impI ballI)
             apply (rule get)
            apply (rule j)
           apply (rule v)
          apply (rule it)
         apply (rule 1)
        apply (rule 3; assumption)
       apply (rule 5; assumption)
      apply (rule 4; assumption)
      done
  qed
  show ?thesis
    apply (rule exI[of _ response], rule exI[of _ w1], rule exI[of _ ids])
    apply (intro conjI)
       apply (rule post)
      apply (rule ids)
     apply (rule A)
    apply (rule impI, rule B, assumption)
    done
qed


lemma example_work_items_filtered:
  "(case example_work_items ''Sprint 1'' of
      (Inr resp, _) \<Rightarrow>
        (case py_item resp ''work_items'' of Inr (JArr items) \<Rightarrow> length items = 1 | _ \<Rightarrow> False)
    | _ \<Rightarrow> False)"
  by code_simp

lemma example_work_items_unfiltered:
  "(case example_work_items [] of
      (Inr resp, _) \<Rightarrow>
        (case py_item resp ''work_items'' of Inr (JArr items) \<Rightarrow> length items = 2 | _ \<Rightarrow> False)
    | _ \<Rightarrow> False)"
  by code_simp

theorem work_items_iteration_filter_witness:
  "(\<exists>resp (fetched :: json list) items.
      example_work_items ''Sprint 1'' = (Inr resp, ())
    \<and> py_item resp ''work_items'' = Inr (JArr items) \<and> length items = 1
    \<and> (\<forall>it \<in> set items. \<exists>f \<in> set fetched. \<exists>path.
           py_item it ''iteration'' = Inr path \<and> py_in ''Sprint 1'' path = Inr True))
   \<and> (\<exists>resp fetched items.
      example_work_items [] = (Inr resp, ())
    \<and> py_item resp ''work_items'' = Inr (JArr items)
    \<and> length items = 2 \<and> length fetched = 2
    \<and> list_all2 (\<lambda>f it. simplify_item [] f = Inr (Some it)
                        \<and> py_item it ''id'' = py_item f ''id''
                        \<and> py_item it ''url'' = py_item f ''url'')
          fetched items)"
proof -
  from example_work_items_filtered obtain r1 i1 where
    a: "example_work_items ''Sprint 1'' = (Inr r1, ())"
      "py_item r1 ''work_items'' = Inr (JArr i1)" "length i1 = 1"
    by (auto split: prod.splits sum.splits json.splits)
  from example_work_items_unfiltered obtain r0 i0 where
    b: "example_work_items [] = (Inr r0, ())"
      "py_item r0 ''work_items'' = Inr (JArr i0)" "length i0 = 2"
    by (auto split: prod.splits sum.splits json.splits)
  from work_items_iteration_filter[OF a(1)[unfolded example_work_items_def]]
  obtain ids1 where
    n1: "ids1 = [] \<longrightarrow> py_item r1 ''work_items'' = Inr (JArr [])"
    and s1: "ids1 \<noteq> [] \<longrightarrow>
         (\<exists>fetched items.
             py_item r1 ''work_items'' = Inr (JArr items)
           \<and> (''Sprint 1'' \<noteq> [] \<longrightarrow>
                (\<forall>it \<in> set items. \<exists>f \<in> set fetched. \<exists>fields path.
                    simplify_item ''Sprint 1'' f = Inr (Some it)
                  \<and> py_item f ''fields'' = Inr fields
                  \<and> py_get fields ''System.IterationPath'' (JStr []) = Inr path
                  \<and> py_item it ''iteration'' = Inr path
                  \<and> py_in ''Sprint 1'' path = Inr True
                  \<and> (\<forall>s. path = JStr s \<longrightarrow>
                        (\<exists>before after. s = before @ ''Sprint 1'' @ after)))))"
    by (elim exE conjE) blast
  from n1 a(2,3) have "ids1 \<noteq> []" by auto
  with s1 a(2) obtain f1 where
    A0: "\<forall>it \<in> set i1. \<exists>f \<in> set f1. \<exists>fields path.
                    simplify_item ''Sprint 1'' f = Inr (Some it)
                  \<and> py_item f ''fields'' = Inr fields
                  \<and> py_get fields ''System.IterationPath'' (JStr []) = Inr path
                  \<and> py_item it ''iteration'' = Inr path
                  \<and> py_in ''Sprint 1'' path = Inr True
                  \<and> (\<forall>s. path = JStr s \<longrightarrow>
                        (\<exists>before after. s = before @ ''Sprint 1'' @ after))"
    by auto
  have A1: "\<forall>it \<in> set i1. \<exists>f \<in> set f1. \<exists>path.
           py_item it ''iteration'' = Inr path \<and> py_in ''Sprint 1'' path = Inr True"
  proof
    fix it assume "it \<in> set i1"
    with A0 obtain f path where "f \<in> set f1" "py_item it ''iteration'' = Inr path"
      "py_in ''Sprint 1'' path = Inr True"
      by blast
    then show "\<exists>f \<in> set f1. \<exists>path.
           py_item it ''iteration'' = Inr path \<and> py_in ''Sprint 1'' path = Inr True"
      by blast
  qed
  from work_items_iteration_filter[OF b(1)[unfolded example_work_items_def]]
  obtain ids0 where
    n0: "ids0 = [] \<longrightarrow> py_item r0 ''work_items'' = Inr (JArr [])"
    and s0: "ids0 \<noteq> [] \<longrightarrow>
         (\<exists>fetched items.
             py_item r0 ''work_items'' = Inr (JArr items)
           \<and> (([]::string) = [] \<longrightarrow>
                length items = length fetched
              \<and> list_all2 (\<lambda>f it. simplify_item [] f = Inr (Some it)
                                  \<and> py_item it ''id'' = py_item f ''id''
                                  \<and> py_item it ''url'' = py_item f ''url'')
                    fetched items))"
    by (elim exE conjE) blast
  from n0 b(2,3) have "ids0 \<noteq> []" by auto
  with s0 b(2) obtain f0 where
    B0: "length i0 = length f0"
      "list_all2 (\<lambda>f it. simplify_item [] f = Inr (Some it)
                                  \<and> py_item it ''id'' = py_item f ''id''
                                  \<and> py_item it ''url'' = py_item f ''url'')
                    f0 i0"
    by auto
  from B0(1) b(3) have B1: "length f0 = 2" by simp
  have A: "\<exists>resp (fetched :: json list) items.
      example_work_items ''Sprint 1'' = (Inr resp, ())
    \<and> py_item resp ''work_items'' = Inr (JArr items) \<and> length items = 1
    \<and> (\<forall>it \<in> set items. \<exists>f \<in> set fetched. \<exists>path.
           py_item it ''iteration'' = Inr path \<and> py_in ''Sprint 1'' path = Inr True)"
    by (rule exI[of _ r1], rule exI[of _ f1], rule exI[of _ i1], intro conjI)
       (rule a(1), rule a(2), rule a(3), rule A1)
  have B: "\<exists>resp fetched items.
      example_work_items [] = (Inr resp, ())
    \<and> py_item resp ''work_items'' = Inr (JArr items)
    \<and> length items = 2 \<and> length fetched = 2
    \<and> list_all2 (\<lambda>f it. simplify_item [] f = Inr (Some it)
                        \<and> py_item it ''id'' = py_item f ''id''
                        \<and> py_item it ''url'' = py_item f ''url'')
          fetched items"
    by (rule exI[of _ r0], rule exI[of _ f0], rule exI[of _ i0], intro conjI)
       (rule b(1), rule b(2), rule b(3), rule B1, rule B0(2))
  from A B show ?thesis by (rule conjI)
qed

subsection \<open>\<open>/work-item-details\<close>: one id or several\<close>






subsection \<open>\<open>/work-item-details\<close>: a failure for one id\<close>

text \<open>
  Claim C4. When several ids are requested and fetching one of them raises an
  exception \<open>e\<close> (an upstream answer outside 200 to 299 to the request for the
  work item is one: it raises \<open>HTTPStatusError\<close>), the entry of that id is
  \<open>{id, error}\<close>, the ids before it keep their entries, the ids after it are
  processed from the state the failure left, and the endpoint returns
  \<open>{work_items, count}\<close> with one entry per id.
\<close>

theorem per_id_failure_is_isolated:
  assumes "map strip (str_split work_item_id '','') = before @ single_id # after"
    and "before \<noteq> [] \<or> after \<noteq> []"
    and "fetch_all rt cfg (get_azure_config_from_headers cfg xo xp xb auth) w before = (es1, w1)"
    and "fetch_detail rt cfg (get_azure_config_from_headers cfg xo xp xb auth) w1 single_id
           = (Inl e, w2)"
    and "fetch_all rt cfg (get_azure_config_from_headers cfg xo xp xb auth) w2 after = (es2, w3)"
  shows "get_work_item_details rt cfg w work_item_id xo xp xb auth =
           (Inr (JObj [(''work_items'',
                        JArr (es1 @ JObj [(''id'', JStr single_id),
                                          (''error'', JStr (''Failed to fetch details: ''
                                                            @ str_exn rt e))] # es2)),
                       (''count'', JInt (int (length before + 1 + length after)))]), w3)
       \<and> length es1 = length before \<and> length es2 = length after
       \<and> (\<forall>ac r w'.
            send rt w1 \<lparr> req_method = ''GET'',
                         req_url = base_url ac @ ''/'' @ azure_config.project ac
                                   @ ''/_apis/wit/workitems/'' @ single_id
                                   @ ''?$expand=all&api-version=7.0'',
                         req_headers = get_auth_header cfg (Some (access_token ac)),
                         req_json = None \<rparr> = (Inr r, w')
            \<and> \<not> (200 \<le> status_code r \<and> status_code r \<le> 299)
            \<longrightarrow> fetch_detail rt cfg ac w1 single_id = (Inl (HTTPStatusError r), w'))"
proof -
  let ?ac = "get_azure_config_from_headers cfg xo xp xb auth"
  have f: "fetch_all rt cfg ?ac w (before @ single_id # after) =
           (es1 @ error_record rt single_id e # es2, w3)"
    by (rule fetch_all_failure[OF assms(3,4,5)])
  have n: "length (before @ single_id # after) \<noteq> 1"
    using assms(2) by (simp only: length_ge2_not1) simp
  have l: "length es1 = length before" "length es2 = length after"
    using fetch_all_length[OF assms(3)] fetch_all_length[OF assms(5)] by simp_all
  have g: "get_work_item_details rt cfg w work_item_id xo xp xb auth =
           (Inr (JObj [(''work_items'',
                        JArr (es1 @ JObj [(''id'', JStr single_id),
                                          (''error'', JStr (''Failed to fetch details: ''
                                                            @ str_exn rt e))] # es2)),
                       (''count'', JInt (int (length before + 1 + length after)))]), w3)"
    using details_of_ids[OF assms(1) n f] l by (simp add: error_record_def)
  have h: "\<forall>ac r w'.
            send rt w1 \<lparr> req_method = ''GET'',
                         req_url = base_url ac @ ''/'' @ azure_config.project ac
                                   @ ''/_apis/wit/workitems/'' @ single_id
                                   @ ''?$expand=all&api-version=7.0'',
                         req_headers = get_auth_header cfg (Some (access_token ac)),
                         req_json = None \<rparr> = (Inr r, w')
            \<and> \<not> (200 \<le> status_code r \<and> status_code r \<le> 299)
            \<longrightarrow> fetch_detail rt cfg ac w1 single_id = (Inl (HTTPStatusError r), w')"
    by (intro allI impI, elim conjE, rule fetch_detail_status_error)
  from g l h show ?thesis by (intro conjI)
qed


lemma example_ids: "map strip (str_split ''1, 2'' '','') = [''1''] @ ''2'' # []"
  by code_simp

lemma example_failure:
  "fetch_detail (serve example_upstream) example_config example_azure_config () ''2'' =
     (Inl (HTTPStatusError \<lparr> status_code = 404, resp_text = ''not found'', resp_json = None \<rparr>),
      ())"
  by code_simp

theorem per_id_failure_is_isolated_witness:
  "fetch_detail (serve example_upstream) example_config example_azure_config () ''2'' =
     (Inl (HTTPStatusError \<lparr> status_code = 404, resp_text = ''not found'', resp_json = None \<rparr>),
      ())
   \<and> (\<exists>es1. length es1 = 1
        \<and> example_details ''1, 2'' =
            (Inr (JObj [(''work_items'',
                         JArr (es1 @ [JObj [(''id'', JStr ''2''),
                                            (''error'', JStr ''Failed to fetch details: Client error'')]])),
                        (''count'', JInt 2)]), ()))"
proof -
  let ?es1 = "fst (fetch_all (serve example_upstream) example_config example_azure_config ()
                     [''1''])"
  have a: "fetch_all (serve example_upstream) example_config
             (get_azure_config_from_headers example_config None None None None) () [''1'']
           = (?es1, ())"
    by (simp add: example_azure_config_def prod_eq_iff del: fetch_all.simps)
  have b: "fetch_all (serve example_upstream) example_config
             (get_azure_config_from_headers example_config None None None None) () []
           = ([], ())"
    by simp
  have c: "[''1''] \<noteq> [] \<or> ([]::string list) \<noteq> []" by simp
  note t = per_id_failure_is_isolated[OF example_ids c a
      example_failure[unfolded example_azure_config_def] b]
  from t have l: "length ?es1 = 1" by simp
  have s: "str_exn (serve example_upstream)
             (HTTPStatusError \<lparr> status_code = 404, resp_text = ''not found'', resp_json = None \<rparr>)
           = ''Client error''"
    by (simp add: serve_def example_str_exn_def)
  from t have g: "example_details ''1, 2'' =
            (Inr (JObj [(''work_items'',
                         JArr (?es1 @ [JObj [(''id'', JStr ''2''),
                                            (''error'', JStr ''Failed to fetch details: Client error'')]])),
                        (''count'', JInt 2)]), ())"
    unfolding s example_details_def by simp
  from l g have "\<exists>es1. length es1 = 1
        \<and> example_details ''1, 2'' =
            (Inr (JObj [(''work_items'',
                         JArr (es1 @ [JObj [(''id'', JStr ''2''),
                                            (''error'', JStr ''Failed to fetch details: Client error'')]])),
                        (''count'', JInt 2)]), ())"
    by (intro exI[of _ ?es1] conjI)
  with example_failure show ?thesis by (rule conjI)
qed

subsection \<open>Counts\<close>

text \<open>
  Claim C10. In every successful response the count is the length of the list beside
  it: \<open>count\<close> and \<open>work_items\<close> in \<open>/work-items\<close>, \<open>count\<close> and \<open>iterations\<close> in
  \<open>/my-iterations\<close>, \<open>count\<close> and \<open>work_items\<close> in \<open>/work-item-details\<close> for several
  ids; and in every detail record of \<open>/work-item-details\<close>, in the list or returned
  bare, \<open>child_count\<close> is the length of \<open>child_work_items\<close>.
\<close>

theorem counts_match_lengths:
  "(\<forall>resp w'.
      get_work_items rt cfg w assigned_to iteration xo xp xb auth = (Inr resp, w') \<longrightarrow>
      (\<exists>items. py_item resp ''work_items'' = Inr (JArr items)
             \<and> py_item resp ''count'' = Inr (JInt (int (length items)))))
   \<and> (\<forall>resp w'.
      get_my_iterations rt cfg w assigned_to xo xp xb auth = (Inr resp, w') \<longrightarrow>
      (\<exists>its. py_item resp ''iterations'' = Inr (JArr its)
           \<and> py_item resp ''count'' = Inr (JInt (int (length its)))))
   \<and> (\<forall>resp w'.
      get_work_item_details rt cfg w work_item_id xo xp xb auth = (Inr resp, w')
      \<and> CHR '','' \<in> set work_item_id \<longrightarrow>
      (\<exists>entries. py_item resp ''work_items'' = Inr (JArr entries)
           \<and> py_item resp ''count'' = Inr (JInt (int (length entries)))
           \<and> (\<forall>entry \<in> set entries. \<forall>kvs.
                 entry = JObj kvs \<and> map fst kvs = detail_keys \<longrightarrow>
                 (\<exists>children.
                     py_item entry ''child_work_items'' = Inr (JArr children)
                   \<and> py_item entry ''child_count'' = Inr (JInt (int (length children)))))))
   \<and> (\<forall>resp w' kvs.
      get_work_item_details rt cfg w work_item_id xo xp xb auth = (Inr resp, w')
      \<and> CHR '','' \<notin> set work_item_id \<and> resp = JObj kvs \<and> map fst kvs = detail_keys \<longrightarrow>
      (\<exists>children.
          py_item resp ''child_work_items'' = Inr (JArr children)
        \<and> py_item resp ''child_count'' = Inr (JInt (int (length children)))))"
proof (intro conjI allI impI)
  fix resp w'
  assume "get_work_items rt cfg w assigned_to iteration xo xp xb auth = (Inr resp, w')"
  from work_items_body_success[OF get_work_items_Inr[OF this]]
  show "\<exists>items. py_item resp ''work_items'' = Inr (JArr items)
             \<and> py_item resp ''count'' = Inr (JInt (int (length items)))"
  proof (rule disjE)
    assume "resp = JObj [(''work_items'', JArr []), (''count'', JInt 0)]"
    then show ?thesis by (intro exI[of _ "[]"]) simp
  next
    assume "\<exists>w1 u hs details_response j work_items items.
             client_get rt w1 u hs = (Inr details_response, w')
           \<and> json_of details_response = Inr j
           \<and> py_item j ''value'' = Inr work_items
           \<and> simplified_items iteration work_items = Inr items
           \<and> resp = JObj [(''work_items'', JArr items),
                           (''count'', JInt (int (length items))),
                           (''filters'', JObj [(''assigned_to'', JStr assigned_to),
                                              (''iteration'', JStr iteration)])]"
    then obtain items where "resp = JObj [(''work_items'', JArr items),
                           (''count'', JInt (int (length items))),
                           (''filters'', JObj [(''assigned_to'', JStr assigned_to),
                                              (''iteration'', JStr iteration)])]"
      by (elim exE conjE)
    then show ?thesis by (intro exI[of _ items]) simp
  qed
next
  fix resp w'
  assume "get_my_iterations rt cfg w assigned_to xo xp xb auth = (Inr resp, w')"
  from my_iterations_body_success[OF get_my_iterations_Inr[OF this]]
  obtain paths where "resp = JObj [(''iterations'', JArr (map shape_iteration paths)),
                               (''count'', JInt (int (length paths)))]" ..
  then show "\<exists>its. py_item resp ''iterations'' = Inr (JArr its)
           \<and> py_item resp ''count'' = Inr (JInt (int (length its)))"
    by (intro exI[of _ "map shape_iteration paths"]) simp
next
  fix resp w'
  let ?ac = "get_azure_config_from_headers cfg xo xp xb auth"
  let ?ids = "map strip (str_split work_item_id '','')"
  assume a: "get_work_item_details rt cfg w work_item_id xo xp xb auth = (Inr resp, w')
      \<and> CHR '','' \<in> set work_item_id"
  obtain entries w2 where f: "fetch_all rt cfg ?ac w ?ids = (entries, w2)"
    by (cases "fetch_all rt cfg ?ac w ?ids")
  from details_several(1)[OF conjunct2[OF a] f] conjunct1[OF a]
  have r: "resp = JObj [(''work_items'', JArr entries),
                        (''count'', JInt (int (length entries)))]"
    by simp
  have c: "\<forall>entry \<in> set entries. \<forall>kvs.
                 entry = JObj kvs \<and> map fst kvs = detail_keys \<longrightarrow>
                 (\<exists>children.
                     py_item entry ''child_work_items'' = Inr (JArr children)
                   \<and> py_item entry ''child_count'' = Inr (JInt (int (length children))))"
    by (intro ballI allI impI, elim conjE, rule entries_counted[OF f])
  show "\<exists>entries. py_item resp ''work_items'' = Inr (JArr entries)
           \<and> py_item resp ''count'' = Inr (JInt (int (length entries)))
           \<and> (\<forall>entry \<in> set entries. \<forall>kvs.
                 entry = JObj kvs \<and> map fst kvs = detail_keys \<longrightarrow>
                 (\<exists>children.
                     py_item entry ''child_work_items'' = Inr (JArr children)
                   \<and> py_item entry ''child_count'' = Inr (JInt (int (length children)))))"
    by (rule exI[of _ entries], intro conjI) (simp add: r, simp add: r, rule c)
next
  fix resp w' kvs
  let ?ac = "get_azure_config_from_headers cfg xo xp xb auth"
  assume a: "get_work_item_details rt cfg w work_item_id xo xp xb auth = (Inr resp, w')
      \<and> CHR '','' \<notin> set work_item_id \<and> resp = JObj kvs \<and> map fst kvs = detail_keys"
  then have g: "get_work_item_details rt cfg w work_item_id xo xp xb auth = (Inr resp, w')"
    and n: "CHR '','' \<notin> set work_item_id" and k: "resp = JObj kvs" "map fst kvs = detail_keys"
    by simp_all
  obtain entry w2 where e: "fetch_entry rt cfg ?ac w (strip work_item_id) = (entry, w2)"
    by (cases "fetch_entry rt cfg ?ac w (strip work_item_id)")
  from details_single[OF n e] g have "entry = resp" by simp
  with e have "fetch_entry rt cfg ?ac w (strip work_item_id) = (resp, w2)" by simp
  from entry_counted[OF this k]
  show "\<exists>children.
          py_item resp ''child_work_items'' = Inr (JArr children)
        \<and> py_item resp ''child_count'' = Inr (JInt (int (length children)))" .
qed


lemma example_work_items_one:
  "(case example_work_items ''Sprint 1'' of
      (Inr resp, _) \<Rightarrow>
        (case py_item resp ''work_items'' of Inr (JArr items) \<Rightarrow> items \<noteq> [] | _ \<Rightarrow> False)
    | _ \<Rightarrow> False)"
  by code_simp

lemma example_iterations_two:
  "(case example_iterations of
      (Inr resp, _) \<Rightarrow>
        (case py_item resp ''iterations'' of Inr (JArr its) \<Rightarrow> its \<noteq> [] | _ \<Rightarrow> False)
    | _ \<Rightarrow> False)"
  by code_simp

lemma example_detail_one:
  "(case example_details ''1'' of
      (Inr (JObj kvs), _) \<Rightarrow>
        map fst kvs = detail_keys
        \<and> (case map_of kvs ''child_work_items'' of
             Some (JArr children) \<Rightarrow> children \<noteq> [] | _ \<Rightarrow> False)
    | _ \<Rightarrow> False)"
  by code_simp

theorem counts_match_lengths_witness:
  "(\<exists>resp items. example_work_items ''Sprint 1'' = (Inr resp, ())
      \<and> py_item resp ''work_items'' = Inr (JArr items)
      \<and> py_item resp ''count'' = Inr (JInt (int (length items))) \<and> items \<noteq> [])
   \<and> (\<exists>resp its. example_iterations = (Inr resp, ())
      \<and> py_item resp ''iterations'' = Inr (JArr its)
      \<and> py_item resp ''count'' = Inr (JInt (int (length its))) \<and> its \<noteq> [])
   \<and> (\<exists>resp entries. example_details ''1, 2'' = (Inr resp, ())
      \<and> py_item resp ''work_items'' = Inr (JArr entries)
      \<and> py_item resp ''count'' = Inr (JInt (int (length entries))))
   \<and> (\<exists>resp children. example_details ''1'' = (Inr resp, ())
      \<and> py_item resp ''child_work_items'' = Inr (JArr children)
      \<and> py_item resp ''child_count'' = Inr (JInt (int (length children)))
      \<and> children \<noteq> [])"
proof -
  note t = counts_match_lengths[of "serve example_upstream" example_config "()"
      "''ann@example.com''" "''Sprint 1''" None None None None]
  note t1 = t[of "''1''", THEN conjunct1, rule_format]
  note t2 = t[of "''1''", THEN conjunct2, THEN conjunct1, rule_format]
  note t3 = counts_match_lengths[of "serve example_upstream" example_config "()" _ _
      None None None None "''1, 2''", THEN conjunct2, THEN conjunct2, THEN conjunct1,
      rule_format]
  note t4 = t[of "''1''", THEN conjunct2, THEN conjunct2, THEN conjunct2, rule_format]
  from example_work_items_one obtain r1 i1 where
    a: "example_work_items ''Sprint 1'' = (Inr r1, ())"
      "py_item r1 ''work_items'' = Inr (JArr i1)" "i1 \<noteq> []"
    by (auto split: prod.splits sum.splits json.splits)
  from t1[OF a(1)[unfolded example_work_items_def]] a(2)
  have a4: "py_item r1 ''count'' = Inr (JInt (int (length i1)))" by auto
  from example_iterations_two obtain r2 i2 where
    b: "example_iterations = (Inr r2, ())"
      "py_item r2 ''iterations'' = Inr (JArr i2)" "i2 \<noteq> []"
    by (auto split: prod.splits sum.splits json.splits)
  from t2[OF b(1)[unfolded example_iterations_def]] b(2)
  have b4: "py_item r2 ''count'' = Inr (JInt (int (length i2)))" by auto
  from details_always_returns[of "serve example_upstream" example_config "()" "''1, 2''"
      None None None None]
  obtain r3 where c: "example_details ''1, 2'' = (Inr r3, ())"
    unfolding example_details_def by auto
  have "CHR '','' \<in> set ''1, 2''" by simp
  with c have "get_work_item_details (serve example_upstream) example_config () ''1, 2''
                 None None None None = (Inr r3, ()) \<and> CHR '','' \<in> set ''1, 2''"
    unfolding example_details_def by simp
  from t3[OF this] obtain i3 where
    c2: "py_item r3 ''work_items'' = Inr (JArr i3)"
      "py_item r3 ''count'' = Inr (JInt (int (length i3)))"
    by (elim exE conjE)
  from example_detail_one obtain k4 c4 where
    d: "example_details ''1'' = (Inr (JObj k4), ())" "map fst k4 = detail_keys"
      "map_of k4 ''child_work_items'' = Some (JArr c4)" "c4 \<noteq> []"
    by (auto split: prod.splits sum.splits json.splits option.splits)
  have "CHR '','' \<notin> set ''1''" by simp
  with d have "get_work_item_details (serve example_upstream) example_config () ''1''
                 None None None None = (Inr (JObj k4), ())
               \<and> CHR '','' \<notin> set ''1'' \<and> JObj k4 = JObj k4 \<and> map fst k4 = detail_keys"
    unfolding example_details_def by simp
  from t4[OF this] d(3)
  have d2: "py_item (JObj k4) ''child_work_items'' = Inr (JArr c4)"
    "py_item (JObj k4) ''child_count'' = Inr (JInt (int (length c4)))"
    by auto
  have A: "\<exists>resp items. example_work_items ''Sprint 1'' = (Inr resp, ())
      \<and> py_item resp ''work_items'' = Inr (JArr items)
      \<and> py_item resp ''count'' = Inr (JInt (int (length items))) \<and> items \<noteq> []"
    by (rule exI[of _ r1], rule exI[of _ i1], intro conjI) (rule a(1), rule a(2), rule a4, rule a(3))
  have B: "\<exists>resp its. example_iterations = (Inr resp, ())
      \<and> py_item resp ''iterations'' = Inr (JArr its)
      \<and> py_item resp ''count'' = Inr (JInt (int (length its))) \<and> its \<noteq> []"
    by (rule exI[of _ r2], rule exI[of _ i2], intro conjI) (rule b(1), rule b(2), rule b4, rule b(3))
  have C: "\<exists>resp entries. example_details ''1, 2'' = (Inr resp, ())
      \<and> py_item resp ''work_items'' = Inr (JArr entries)
      \<and> py_item resp ''count'' = Inr (JInt (int (length entries)))"
    by (rule exI[of _ r3], rule exI[of _ i3], intro conjI) (rule c, rule c2(1), rule c2(2))
  have D: "\<exists>resp children. example_details ''1'' = (Inr resp, ())
      \<and> py_item resp ''child_work_items'' = Inr (JArr children)
      \<and> py_item resp ''child_count'' = Inr (JInt (int (length children)))
      \<and> children \<noteq> []"
    by (rule exI[of _ "JObj k4"], rule exI[of _ c4], intro conjI)
       (rule d(1), rule d2(1), rule d2(2), rule d(4))
  from A B C D show ?thesis by (intro conjI)
qed

subsection \<open>\<open>/work-item-details\<close>: child work items\<close>

text \<open>
  Claim C8, as amended. In a detail record, \<open>child_work_items\<close> is what the batch
  request for the child ids returned (shaped), and it is empty when there is no child
  id. Every child id comes from a relation of the work item whose \<open>rel\<close> is
  \<open>System.LinkTypes.Hierarchy-Forward\<close>, and is the last piece of that relation's URL
  split at \<open>/workItems/\<close>: the URL ends with \<open>/workItems/\<close> followed by the id, the id
  contains no \<open>/workItems/\<close>, and it is the segment after the last occurrence of
  \<open>/workItems/\<close> whenever it does not itself begin with \<open>workItems/\<close>.
\<close>

theorem children_come_from_forward_links:
  assumes "fetch_detail rt cfg ac w single_id = (Inr d, w')"
  shows "\<exists>work_item ids children w2.
       (\<exists>u hs response w1. client_get rt w u hs = (Inr response, w1)
                          \<and> json_of response = Inr work_item)
     \<and> child_ids_of work_item = Inr ids
     \<and> fetch_children rt cfg ac w2 ids = (Inr children, w')
     \<and> py_item d ''child_work_items'' = Inr (JArr children)
     \<and> (ids = [] \<longrightarrow> children = [])
     \<and> (\<forall>child_id \<in> set ids. \<exists>relations rs relation url.
            py_get work_item ''relations'' (JArr []) = Inr relations
          \<and> py_iter relations = Inr rs \<and> relation \<in> set rs
          \<and> py_get relation ''rel'' JNull = Inr (JStr ''System.LinkTypes.Hierarchy-Forward'')
          \<and> py_get relation ''url'' (JStr []) = Inr (JStr url)
          \<and> child_id = last (str_split url ''/workItems/'')
          \<and> (\<exists>before. url = before @ ''/workItems/'' @ child_id)
          \<and> \<not> str_contains ''/workItems/'' child_id
          \<and> (\<not> prefix ''workItems/'' child_id \<longrightarrow>
                child_id = spec_after_last ''/workItems/'' url))"
proof -
  from fetch_detail_children[OF assms] obtain work_item ids children w2 where
    1: "\<exists>u hs response w1. client_get rt w u hs = (Inr response, w1)
                          \<and> json_of response = Inr work_item"
    and 2: "child_ids_of work_item = Inr ids"
    and 3: "fetch_children rt cfg ac w2 ids = (Inr children, w')"
    and 4: "py_item d ''child_work_items'' = Inr (JArr children)"
    by blast
  have 5: "ids = [] \<longrightarrow> children = []"
    using 3 by (auto simp: fetch_children_none)
  have 6: "\<exists>relations rs relation url.
            py_get work_item ''relations'' (JArr []) = Inr relations
          \<and> py_iter relations = Inr rs \<and> relation \<in> set rs
          \<and> py_get relation ''rel'' JNull = Inr (JStr ''System.LinkTypes.Hierarchy-Forward'')
          \<and> py_get relation ''url'' (JStr []) = Inr (JStr url)
          \<and> child_id = last (str_split url ''/workItems/'')
          \<and> (\<exists>before. url = before @ ''/workItems/'' @ child_id)
          \<and> \<not> str_contains ''/workItems/'' child_id
          \<and> (\<not> prefix ''workItems/'' child_id \<longrightarrow>
                child_id = spec_after_last ''/workItems/'' url)"
    if "child_id \<in> set ids" for child_id
  proof -
    from child_ids_of_member[OF 2 that] obtain relations rs relation where
      a: "py_get work_item ''relations'' (JArr []) = Inr relations"
      and b: "py_iter relations = Inr rs" and c: "relation \<in> set rs"
      and e: "child_id_of relation = Inr (Some child_id)"
      by (elim exE conjE)
    from forward_child_id[OF e] obtain url where
      f: "py_get relation ''rel'' JNull = Inr (JStr ''System.LinkTypes.Hierarchy-Forward'')
          \<and> py_get relation ''url'' (JStr []) = Inr (JStr url)
          \<and> child_id = last (str_split url ''/workItems/'')
          \<and> (\<exists>before. url = before @ ''/workItems/'' @ child_id)
          \<and> \<not> str_contains ''/workItems/'' child_id
          \<and> (\<not> prefix ''workItems/'' child_id \<longrightarrow>
                child_id = spec_after_last ''/workItems/'' url)" ..
    show ?thesis
      by (rule exI[of _ relations], rule exI[of _ rs], rule exI[of _ relation],
          rule exI[of _ url], intro conjI)
         (rule a, rule b, rule c, (rule f[THEN conjunct1]),
          (rule f[THEN conjunct2, THEN conjunct1]),
          (rule f[THEN conjunct2, THEN conjunct2, THEN conjunct1]),
          (rule f[THEN conjunct2, THEN conjunct2, THEN conjunct2, THEN conjunct1]),
          (rule f[THEN conjunct2, THEN conjunct2, THEN conjunct2, THEN conjunct2,
                  THEN conjunct1]),
          (rule f[THEN conjunct2, THEN conjunct2, THEN conjunct2, THEN conjunct2,
                  THEN conjunct2]))
  qed
  show ?thesis
    apply (rule exI[of _ work_item], rule exI[of _ ids], rule exI[of _ children],
           rule exI[of _ w2])
    apply (intro conjI ballI)
         apply (rule 1)
        apply (rule 2)
       apply (rule 3)
      apply (rule 4)
     apply (rule 5)
    apply (rule 6, assumption)
    done
qed

lemma example_children:
  "(case fetch_detail (serve example_upstream) example_config example_azure_config () ''1'' of
      (Inr d, _) \<Rightarrow>
        (case py_item d ''child_work_items'' of Inr (JArr cs) \<Rightarrow> cs \<noteq> [] | _ \<Rightarrow> False)
    | _ \<Rightarrow> False)"
  by code_simp

theorem children_come_from_forward_links_witness:
  "\<exists>d work_item ids children.
      fetch_detail (serve example_upstream) example_config example_azure_config () ''1''
        = (Inr d, ())
    \<and> child_ids_of work_item = Inr ids \<and> ids \<noteq> []
    \<and> py_item d ''child_work_items'' = Inr (JArr children) \<and> children \<noteq> []
    \<and> (\<forall>child_id \<in> set ids. \<exists>relation url.
           py_get relation ''rel'' JNull = Inr (JStr ''System.LinkTypes.Hierarchy-Forward'')
         \<and> py_get relation ''url'' (JStr []) = Inr (JStr url)
         \<and> child_id = last (str_split url ''/workItems/''))"
proof -
  from example_children obtain d cs where
    e: "fetch_detail (serve example_upstream) example_config example_azure_config () ''1''
          = (Inr d, ())"
    and c: "py_item d ''child_work_items'' = Inr (JArr cs)" "cs \<noteq> []"
    by (auto split: prod.splits sum.splits json.splits)
  from children_come_from_forward_links[OF e] obtain work_item ids children where
    1: "child_ids_of work_item = Inr ids"
    and 2: "py_item d ''child_work_items'' = Inr (JArr children)"
    and 3: "ids = [] \<longrightarrow> children = []"
    and 4: "\<forall>child_id \<in> set ids. \<exists>relations rs relation url.
            py_get work_item ''relations'' (JArr []) = Inr relations
          \<and> py_iter relations = Inr rs \<and> relation \<in> set rs
          \<and> py_get relation ''rel'' JNull = Inr (JStr ''System.LinkTypes.Hierarchy-Forward'')
          \<and> py_get relation ''url'' (JStr []) = Inr (JStr url)
          \<and> child_id = last (str_split url ''/workItems/'')
          \<and> (\<exists>before. url = before @ ''/workItems/'' @ child_id)
          \<and> \<not> str_contains ''/workItems/'' child_id
          \<and> (\<not> prefix ''workItems/'' child_id \<longrightarrow>
                child_id = spec_after_last ''/workItems/'' url)"
    by blast
  from c 2 have ch: "children \<noteq> []" by simp
  with 3 have ids: "ids \<noteq> []" by blast
  have 5: "\<forall>child_id \<in> set ids. \<exists>relation url.
           py_get relation ''rel'' JNull = Inr (JStr ''System.LinkTypes.Hierarchy-Forward'')
         \<and> py_get relation ''url'' (JStr []) = Inr (JStr url)
         \<and> child_id = last (str_split url ''/workItems/'')"
  proof
    fix child_id assume "child_id \<in> set ids"
    with 4 obtain relation url where
      "py_get relation ''rel'' JNull = Inr (JStr ''System.LinkTypes.Hierarchy-Forward'')"
      "py_get relation ''url'' (JStr []) = Inr (JStr url)"
      "child_id = last (str_split url ''/workItems/'')"
      by blast
    then show "\<exists>relation url.
           py_get relation ''rel'' JNull = Inr (JStr ''System.LinkTypes.Hierarchy-Forward'')
         \<and> py_get relation ''url'' (JStr []) = Inr (JStr url)
         \<and> child_id = last (str_split url ''/workItems/'')"
      by (intro exI conjI)
  qed
  show ?thesis
    by (rule exI[of _ d], rule exI[of _ work_item], rule exI[of _ ids],
        rule exI[of _ children], intro conjI)
       (rule e, rule 1, rule ids, rule 2, rule ch, rule 5)
qed

text \<open>
  Claim C8 as stated fails where two occurrences of \<open>/workItems/\<close> overlap in their
  slash: \<open>split\<close> scans from the left without overlap, so for
  \<open>https://x/workItems/workItems/7\<close> the last piece is \<open>workItems/7\<close>, while the segment
  after the last occurrence is \<open>7\<close>.
\<close>

theorem overlapping_separator_counterexample:
  "child_ids_of
     (JObj [(''relations'', JArr
        [JObj [(''rel'', JStr ''System.LinkTypes.Hierarchy-Forward''),
               (''url'', JStr ''https://x/workItems/workItems/7'')]])])
     = Inr [''workItems/7'']
   \<and> spec_after_last ''/workItems/'' ''https://x/workItems/workItems/7'' = ''7''"
  by code_simp


subsection \<open>\<open>/work-item-details\<close>: cleaning of descriptions\<close>

text \<open>
  Claim C2 fails on the description of a child work item. The description and the
  acceptance criteria of the work item itself go through the four replacements; the
  description of a child goes through the first three only, and \<open>&nbsp;\<close> stays. On
  the example service the work item 1 and its child 3 have the same description
  \<open><div>a&nbsp;b<br>c</div>\<close>: the work item's comes out as \<open>a b\<close>, a line break and
  \<open>c\<close>, the child's keeps \<open>&nbsp;\<close>.
\<close>

theorem child_description_keeps_nbsp:
  "child_description (JObj [(''System.Description'', JStr ''a&nbsp;b'')])
     = Inr (JStr ''a&nbsp;b'')
   \<and> clean_field (JObj [(''System.Description'', JStr ''a&nbsp;b'')]) ''System.Description''
     = Inr (JStr ''a b'')
   \<and> (case example_details ''1'' of
        (Inr resp, _) \<Rightarrow>
          py_item resp ''description'' = Inr (JStr ''a b\<newline>c'')
          \<and> (case py_item resp ''child_work_items'' of
               Inr (JArr [child]) \<Rightarrow>
                 py_item child ''description'' = Inr (JStr ''a&nbsp;b\<newline>c'')
             | _ \<Rightarrow> False)
      | _ \<Rightarrow> False)"
  by code_simp

end
